theory Spec2Isabelle
  imports Main "HOL-Library.Sublist" "HOL-Library.Char_ord" "HOL-Library.List_Lexorder"
begin

section \<open>Go strings\<close>

text \<open>
  A Go string is a sequence of bytes; \<open>string\<close> (a list of 8-bit characters) is the same
  thing, \<open>length\<close> is Go's \<open>len\<close>, and the order of \<open>HOL-Library.List_Lexorder\<close> over
  \<open>HOL-Library.Char_ord\<close> is Go's bytewise \<open><\<close> on strings.
\<close>

definition HasPrefix :: "string \<Rightarrow> string \<Rightarrow> bool" where
  "HasPrefix s p = prefix p s"

definition HasSuffix :: "string \<Rightarrow> string \<Rightarrow> bool" where
  "HasSuffix s p = suffix p s"

definition TrimPrefix :: "string \<Rightarrow> string \<Rightarrow> string" where
  "TrimPrefix s p = (if HasPrefix s p then drop (length p) s else s)"

text \<open>\<open>strings.TrimRight(s, cutset)\<close> for a cutset of ASCII bytes.\<close>

definition TrimRight :: "string \<Rightarrow> string \<Rightarrow> string" where
  "TrimRight s cutset = rev (dropWhile (\<lambda>c. c \<in> set cutset) (rev s))"

text \<open>\<open>strings.Index(s, sub)\<close>: the first position where \<open>sub\<close> starts, \<open>None\<close> for Go's -1.\<close>

fun Index :: "string \<Rightarrow> string \<Rightarrow> nat option" where
  "Index [] sub = (if sub = [] then Some 0 else None)"
| "Index (c # cs) sub =
     (if prefix sub (c # cs) then Some 0 else map_option Suc (Index cs sub))"

definition Contains :: "string \<Rightarrow> string \<Rightarrow> bool" where
  "Contains s sub = (Index s sub \<noteq> None)"

definition LastIndexByte :: "string \<Rightarrow> char \<Rightarrow> nat option" where
  "LastIndexByte s c = map_option (\<lambda>i. length s - 1 - i) (Index (rev s) [c])"

text \<open>\<open>strings.Cut(s, sep)\<close>: the text before and after the first \<open>sep\<close>, and whether it was found.\<close>

definition Cut :: "string \<Rightarrow> string \<Rightarrow> string \<times> string \<times> bool" where
  "Cut s sep =
     (case Index s sep of
        Some i \<Rightarrow> (take i s, drop (i + length sep) s, True)
      | None \<Rightarrow> (s, [], False))"

text \<open>
  White space, as \<open>unicode.IsSpace\<close> has it, in UTF-8: the six ASCII characters,
  U+0085, U+00A0, U+1680, U+2000 to U+200A, U+2028, U+2029, U+202F, U+205F and U+3000.
  No encoding is a prefix or a suffix of another, and a well-formed encoding can only be
  decoded as itself, so stripping these byte sequences from the ends is what
  \<open>strings.TrimSpace\<close> does when it decodes runes from the left and from the right.
\<close>

definition spaceRunes :: "string list" where
  "spaceRunes =
     [[CHR 0x09], [CHR 0x0A], [CHR 0x0B], [CHR 0x0C], [CHR 0x0D], [CHR 0x20],
      [CHR 0xC2, CHR 0x85], [CHR 0xC2, CHR 0xA0],
      [CHR 0xE1, CHR 0x9A, CHR 0x80],
      [CHR 0xE2, CHR 0x80, CHR 0x80], [CHR 0xE2, CHR 0x80, CHR 0x81],
      [CHR 0xE2, CHR 0x80, CHR 0x82], [CHR 0xE2, CHR 0x80, CHR 0x83],
      [CHR 0xE2, CHR 0x80, CHR 0x84], [CHR 0xE2, CHR 0x80, CHR 0x85],
      [CHR 0xE2, CHR 0x80, CHR 0x86], [CHR 0xE2, CHR 0x80, CHR 0x87],
      [CHR 0xE2, CHR 0x80, CHR 0x88], [CHR 0xE2, CHR 0x80, CHR 0x89],
      [CHR 0xE2, CHR 0x80, CHR 0x8A],
      [CHR 0xE2, CHR 0x80, CHR 0xA8], [CHR 0xE2, CHR 0x80, CHR 0xA9],
      [CHR 0xE2, CHR 0x80, CHR 0xAF],
      [CHR 0xE2, CHR 0x81, CHR 0x9F],
      [CHR 0xE3, CHR 0x80, CHR 0x80]]"

text \<open>The rune of \<open>ws\<close> that \<open>s\<close> starts with, if any.\<close>

definition runeAt :: "string list \<Rightarrow> string \<Rightarrow> string option" where
  "runeAt ws s = find (\<lambda>w. w \<noteq> [] \<and> prefix w s) ws"

function trimLeftRunes :: "string list \<Rightarrow> string \<Rightarrow> string" where
  "trimLeftRunes ws s =
     (case runeAt ws s of None \<Rightarrow> s | Some w \<Rightarrow> trimLeftRunes ws (drop (length w) s))"
  by pat_completeness auto
termination
proof (relation "measure (\<lambda>(ws, s). length s)")
  show "wf (measure (\<lambda>(ws, s). length s))" by simp
next
  fix ws :: "string list" and s w :: string
  assume "runeAt ws s = Some w"
  then have "w \<noteq> []" and "prefix w s"
    by (auto simp: runeAt_def find_Some_iff)
  then show "((ws, drop (length w) s), (ws, s)) \<in> measure (\<lambda>(ws, s). length s)"
    by (cases s) (auto simp: prefix_def)
qed

declare trimLeftRunes.simps [simp del]

definition trimRightRunes :: "string list \<Rightarrow> string \<Rightarrow> string" where
  "trimRightRunes ws s = rev (trimLeftRunes (map rev ws) (rev s))"

definition TrimSpace :: "string \<Rightarrow> string" where
  "TrimSpace s = trimRightRunes spaceRunes (trimLeftRunes spaceRunes s)"

text \<open>\<open>strings.ToLower\<close> on ASCII text.\<close>

definition toLowerByte :: "char \<Rightarrow> char" where
  "toLowerByte c =
     (case map_of (zip ''ABCDEFGHIJKLMNOPQRSTUVWXYZ'' ''abcdefghijklmnopqrstuvwxyz'') c of
        Some l \<Rightarrow> l
      | None \<Rightarrow> c)"

definition ToLower :: "string \<Rightarrow> string" where
  "ToLower s = map toLowerByte s"

text \<open>Decimal digits of an integer, as \<open>%d\<close> prints them.\<close>

fun digits :: "nat \<Rightarrow> string" where
  "digits n = (if n < 10 then [''0123456789'' ! n] else digits (n div 10) @ [''0123456789'' ! (n mod 10)])"

declare digits.simps [simp del]

definition itoa :: "int \<Rightarrow> string" where
  "itoa i = (if i < 0 then CHR ''-'' # digits (nat (- i)) else digits (nat i))"

text \<open>\<open>template.HTMLEscapeString\<close>.\<close>

definition htmlEscapeByte :: "char \<Rightarrow> string" where
  "htmlEscapeByte c =
     (if c = CHR 0x00 then [CHR 0xEF, CHR 0xBF, CHR 0xBD]
      else if c = CHR 0x22 then ''&#34;''
      else if c = CHR 0x27 then ''&#39;''
      else if c = CHR ''&'' then ''&amp;''
      else if c = CHR ''<'' then ''&lt;''
      else if c = CHR ''>'' then ''&gt;''
      else [c])"

definition HTMLEscapeString :: "string \<Rightarrow> string" where
  "HTMLEscapeString s = concat (map htmlEscapeByte s)"

text \<open>
  \<open>utf8.RuneCountInString\<close>: the number of characters of a string. A well-formed
  encoding counts once, any other byte counts as one character of its own.
\<close>

definition isCont :: "char \<Rightarrow> bool" where
  "isCont c = (CHR 0x80 \<le> c \<and> c \<le> CHR 0xBF)"

fun runeWidth :: "string \<Rightarrow> nat" where
  "runeWidth (b0 # b1 # b2 # b3 # _) =
     (if CHR 0xC2 \<le> b0 \<and> b0 \<le> CHR 0xDF \<and> isCont b1 then 2
      else if b0 = CHR 0xE0 \<and> CHR 0xA0 \<le> b1 \<and> b1 \<le> CHR 0xBF \<and> isCont b2 then 3
      else if b0 = CHR 0xED \<and> CHR 0x80 \<le> b1 \<and> b1 \<le> CHR 0x9F \<and> isCont b2 then 3
      else if CHR 0xE1 \<le> b0 \<and> b0 \<le> CHR 0xEF \<and> b0 \<noteq> CHR 0xED \<and> isCont b1 \<and> isCont b2 then 3
      else if b0 = CHR 0xF0 \<and> CHR 0x90 \<le> b1 \<and> b1 \<le> CHR 0xBF \<and> isCont b2 \<and> isCont b3 then 4
      else if b0 = CHR 0xF4 \<and> CHR 0x80 \<le> b1 \<and> b1 \<le> CHR 0x8F \<and> isCont b2 \<and> isCont b3 then 4
      else if CHR 0xF1 \<le> b0 \<and> b0 \<le> CHR 0xF3 \<and> isCont b1 \<and> isCont b2 \<and> isCont b3 then 4
      else 1)"
| "runeWidth [b0, b1, b2] =
     (if CHR 0xC2 \<le> b0 \<and> b0 \<le> CHR 0xDF \<and> isCont b1 then 2
      else if b0 = CHR 0xE0 \<and> CHR 0xA0 \<le> b1 \<and> b1 \<le> CHR 0xBF \<and> isCont b2 then 3
      else if b0 = CHR 0xED \<and> CHR 0x80 \<le> b1 \<and> b1 \<le> CHR 0x9F \<and> isCont b2 then 3
      else if CHR 0xE1 \<le> b0 \<and> b0 \<le> CHR 0xEF \<and> b0 \<noteq> CHR 0xED \<and> isCont b1 \<and> isCont b2 then 3
      else 1)"
| "runeWidth [b0, b1] = (if CHR 0xC2 \<le> b0 \<and> b0 \<le> CHR 0xDF \<and> isCont b1 then 2 else 1)"
| "runeWidth _ = 1"

function RuneCountInString :: "string \<Rightarrow> nat" where
  "RuneCountInString s = (if s = [] then 0 else Suc (RuneCountInString (drop (runeWidth s) s)))"
  by pat_completeness auto
termination
proof (relation "measure length")
  show "wf (measure length)" by simp
next
  fix s :: string
  assume "s \<noteq> []"
  moreover have "0 < runeWidth s"
    by (induction s rule: runeWidth.induct) simp_all
  ultimately show "(drop (runeWidth s) s, s) \<in> measure length"
    by simp
qed

declare RuneCountInString.simps [simp del]

section \<open>URLs (net/url)\<close>

text \<open>
  The repository parses, resolves and prints URLs with Go's standard library. Its functions
  are parameters of the model: every general statement below holds for any library. The
  fields of a parsed URL are those of \<open>url.URL\<close>.
\<close>

record Userinfo =
  username :: string
  password :: string
  passwordSet :: bool

record URL =
  Scheme :: string
  Opaque :: string
  User :: "Userinfo option"
  Host :: string
  Path :: string
  RawPath :: string
  OmitHost :: bool
  ForceQuery :: bool
  RawQuery :: string
  Fragment :: string
  RawFragment :: string

record urlLib =
  urlParse :: "string \<Rightarrow> string + URL"
  urlResolveReference :: "URL \<Rightarrow> URL \<Rightarrow> URL"
  urlString :: "URL \<Rightarrow> string"

definition IsAbs :: "URL \<Rightarrow> bool" where
  "IsAbs u = (Scheme u \<noteq> [])"

subsection \<open>The functions of net/url\<close>

text \<open>
  For the concrete scenarios the functions of net/url (Go 1.23) are written out:
  \<open>shouldEscape\<close>, \<open>escape\<close>, \<open>unescape\<close>, \<open>validEncoded\<close>, \<open>getScheme\<close>, \<open>parseHost\<close>,
  \<open>parseAuthority\<close>, \<open>parse\<close>, \<open>Parse\<close>, \<open>EscapedPath\<close>, \<open>EscapedFragment\<close>,
  \<open>resolvePath\<close>, \<open>ResolveReference\<close> and \<open>String\<close>. Error texts quote their argument
  as \<open>strconv.Quote\<close> does for printable ASCII.
\<close>

datatype encoding =
    encodePath
  | encodePathSegment
  | encodeHost
  | encodeZone
  | encodeUserPassword
  | encodeQueryComponent
  | encodeFragment

definition emptyURL :: URL where
  "emptyURL = \<lparr>Scheme = [], Opaque = [], User = None, Host = [], Path = [], RawPath = [],
     OmitHost = False, ForceQuery = False, RawQuery = [], Fragment = [], RawFragment = []\<rparr>"

definition isLetter :: "char \<Rightarrow> bool" where
  "isLetter c = ((CHR ''a'' \<le> c \<and> c \<le> CHR ''z'') \<or> (CHR ''A'' \<le> c \<and> c \<le> CHR ''Z''))"

definition isDigit :: "char \<Rightarrow> bool" where
  "isDigit c = (CHR ''0'' \<le> c \<and> c \<le> CHR ''9'')"

definition quote :: "string \<Rightarrow> string" where
  "quote s =
     [CHR 0x22]
     @ concat (map (\<lambda>c. if c = CHR 0x22 \<or> c = CHR 0x5C then [CHR 0x5C, c] else [c]) s)
     @ [CHR 0x22]"

definition shouldEscape :: "char \<Rightarrow> encoding \<Rightarrow> bool" where
  "shouldEscape c mode =
     (if isLetter c \<or> isDigit c then False
      else if (mode = encodeHost \<or> mode = encodeZone)
              \<and> c \<in> set (CHR 0x22 # CHR 0x27 # ''!$&()*+,;=:[]<>'') then False
      else if c \<in> set ''-_.~'' then False
      else if c \<in> set ''$&+,/:;=?@'' \<and> mode = encodePath then c = CHR ''?''
      else if c \<in> set ''$&+,/:;=?@'' \<and> mode = encodePathSegment then
        c = CHR ''/'' \<or> c = CHR '';'' \<or> c = CHR '','' \<or> c = CHR ''?''
      else if c \<in> set ''$&+,/:;=?@'' \<and> mode = encodeUserPassword then
        c = CHR ''@'' \<or> c = CHR ''/'' \<or> c = CHR ''?'' \<or> c = CHR '':''
      else if c \<in> set ''$&+,/:;=?@'' \<and> mode = encodeQueryComponent then True
      else if c \<in> set ''$&+,/:;=?@'' \<and> mode = encodeFragment then False
      else if mode = encodeFragment \<and> c \<in> set ''!()*'' then False
      else True)"

definition ishex :: "char \<Rightarrow> bool" where
  "ishex c = (c \<in> set ''0123456789abcdefABCDEF'')"

definition unhex :: "char \<Rightarrow> nat" where
  "unhex c =
     (case map_of (zip ''0123456789abcdefABCDEF''
                       [0, 1, 2, 3, 4, 5, 6, 7, 8, 9, 10, 11, 12, 13, 14, 15,
                        10, 11, 12, 13, 14, 15]) c of
        Some v \<Rightarrow> v
      | None \<Rightarrow> 0)"

fun unescape :: "string \<Rightarrow> encoding \<Rightarrow> string + string" where
  "unescape [] mode = Inr []"
| "unescape (c # s) mode =
     (if c = CHR ''%'' then
        (if length s < 2 \<or> \<not> ishex (s ! 0) \<or> \<not> ishex (s ! 1)
         then Inl (''invalid URL escape '' @ quote (take 3 (c # s)))
         else if mode = encodeHost \<and> unhex (s ! 0) < 8 \<and> take 3 (c # s) \<noteq> ''%25''
         then Inl (''invalid URL escape '' @ quote (take 3 (c # s)))
         else if mode = encodeZone \<and> take 3 (c # s) \<noteq> ''%25''
                 \<and> unhex (s ! 0) * 16 + unhex (s ! 1) \<noteq> 32
                 \<and> shouldEscape (char_of (unhex (s ! 0) * 16 + unhex (s ! 1))) encodeHost
         then Inl (''invalid URL escape '' @ quote (take 3 (c # s)))
         else map_sum id (\<lambda>t. char_of (unhex (s ! 0) * 16 + unhex (s ! 1)) # t)
                (unescape (drop 2 s) mode))
      else if (mode = encodeHost \<or> mode = encodeZone) \<and> c < CHR 0x80
              \<and> shouldEscape c encodeHost
      then Inl (''invalid character '' @ quote [c] @ '' in host name'')
      else map_sum id (\<lambda>t. (if c = CHR ''+'' \<and> mode = encodeQueryComponent
                              then CHR '' '' else c) # t)
             (unescape s mode))"

definition escape :: "string \<Rightarrow> encoding \<Rightarrow> string" where
  "escape s mode =
     concat (map (\<lambda>c.
       if shouldEscape c mode then
         (if c = CHR '' '' \<and> mode = encodeQueryComponent then ''+''
          else [CHR ''%'', ''0123456789ABCDEF'' ! (of_char c div 16),
                ''0123456789ABCDEF'' ! (of_char c mod 16)])
       else [c]) s)"

definition validEncoded :: "string \<Rightarrow> encoding \<Rightarrow> bool" where
  "validEncoded s mode =
     (\<forall>c \<in> set s. c \<in> set (CHR 0x27 # ''!$&()*+,;=:@[]%'') \<or> \<not> shouldEscape c mode)"

fun getSchemeAt :: "nat \<Rightarrow> string \<Rightarrow> string \<Rightarrow> string + (string \<times> string)" where
  "getSchemeAt i rawURL [] = Inr ([], rawURL)"
| "getSchemeAt i rawURL (c # cs) =
     (if isLetter c then getSchemeAt (Suc i) rawURL cs
      else if isDigit c \<or> c \<in> set ''+-.'' then
        (if i = 0 then Inr ([], rawURL) else getSchemeAt (Suc i) rawURL cs)
      else if c = CHR '':'' then
        (if i = 0 then Inl ''missing protocol scheme''
         else Inr (take i rawURL, drop (Suc i) rawURL))
      else Inr ([], rawURL))"

definition getScheme :: "string \<Rightarrow> string + (string \<times> string)" where
  "getScheme rawURL = getSchemeAt 0 rawURL rawURL"

definition stringContainsCTLByte :: "string \<Rightarrow> bool" where
  "stringContainsCTLByte s = (\<exists>b \<in> set s. b < CHR 0x20 \<or> b = CHR 0x7F)"

definition validOptionalPort :: "string \<Rightarrow> bool" where
  "validOptionalPort port =
     (case port of
        [] \<Rightarrow> True
      | c # ds \<Rightarrow> c = CHR '':'' \<and> (\<forall>b \<in> set ds. isDigit b))"

definition validUserinfo :: "string \<Rightarrow> bool" where
  "validUserinfo s =
     (\<forall>r \<in> set s. isLetter r \<or> isDigit r \<or> r \<in> set (CHR 0x27 # ''-._:~!$&()*+,;=%@''))"

definition parseHost :: "string \<Rightarrow> string + string" where
  "parseHost host =
     (if HasPrefix host ''['' then
        (case LastIndexByte host (CHR '']'') of
           None \<Rightarrow> Inl ''missing ']' in host''
         | Some i \<Rightarrow>
             let colonPort = drop (Suc i) host in
             if \<not> validOptionalPort colonPort
             then Inl (''invalid port '' @ quote colonPort @ '' after host'')
             else case Index (take i host) ''%25'' of
               Some zone \<Rightarrow>
                 (case unescape (take zone host) encodeHost of
                    Inl err \<Rightarrow> Inl err
                  | Inr host1 \<Rightarrow>
                      case unescape (drop zone (take i host)) encodeZone of
                        Inl err \<Rightarrow> Inl err
                      | Inr host2 \<Rightarrow>
                          case unescape (drop i host) encodeHost of
                            Inl err \<Rightarrow> Inl err
                          | Inr host3 \<Rightarrow> Inr (host1 @ host2 @ host3))
             | None \<Rightarrow> unescape host encodeHost)
      else case LastIndexByte host (CHR '':'') of
        Some i \<Rightarrow>
          if \<not> validOptionalPort (drop i host)
          then Inl (''invalid port '' @ quote (drop i host) @ '' after host'')
          else unescape host encodeHost
      | None \<Rightarrow> unescape host encodeHost)"

definition parseAuthority :: "string \<Rightarrow> string + (Userinfo option \<times> string)" where
  "parseAuthority authority =
     (case LastIndexByte authority (CHR ''@'') of
        None \<Rightarrow> map_sum id (\<lambda>host. (None, host)) (parseHost authority)
      | Some i \<Rightarrow>
          case parseHost (drop (Suc i) authority) of
            Inl err \<Rightarrow> Inl err
          | Inr host \<Rightarrow>
              let userinfo = take i authority in
              if \<not> validUserinfo userinfo then Inl ''net/url: invalid userinfo''
              else if \<not> Contains userinfo '':'' then
                (case unescape userinfo encodeUserPassword of
                   Inl err \<Rightarrow> Inl ''net/url: invalid userinfo''
                 | Inr name \<Rightarrow>
                     Inr (Some \<lparr>username = name, password = [], passwordSet = False\<rparr>, host))
              else
                (case Cut userinfo '':'' of (name, pass, found) \<Rightarrow>
                   case unescape name encodeUserPassword of
                     Inl err \<Rightarrow> Inl ''net/url: invalid userinfo''
                   | Inr name \<Rightarrow>
                       case unescape pass encodeUserPassword of
                         Inl err \<Rightarrow> Inl ''net/url: invalid userinfo''
                       | Inr pass \<Rightarrow>
                           Inr (Some \<lparr>username = name, password = pass,
                                       passwordSet = True\<rparr>, host)))"

definition setPath :: "URL \<Rightarrow> string \<Rightarrow> string + URL" where
  "setPath u p =
     (case unescape p encodePath of
        Inl err \<Rightarrow> Inl err
      | Inr path \<Rightarrow>
          Inr (u\<lparr>Path := path,
                 RawPath := (if p = escape path encodePath then [] else p)\<rparr>))"

definition setFragment :: "URL \<Rightarrow> string \<Rightarrow> string + URL" where
  "setFragment u f =
     (case unescape f encodeFragment of
        Inl err \<Rightarrow> Inl err
      | Inr frag \<Rightarrow>
          Inr (u\<lparr>Fragment := frag,
                 RawFragment := (if f = escape frag encodeFragment then [] else f)\<rparr>))"

definition EscapedPath :: "URL \<Rightarrow> string" where
  "EscapedPath u =
     (if RawPath u \<noteq> [] \<and> validEncoded (RawPath u) encodePath
         \<and> unescape (RawPath u) encodePath = Inr (Path u)
      then RawPath u
      else if Path u = ''*'' then ''*''
      else escape (Path u) encodePath)"

definition EscapedFragment :: "URL \<Rightarrow> string" where
  "EscapedFragment u =
     (if RawFragment u \<noteq> [] \<and> validEncoded (RawFragment u) encodeFragment
         \<and> unescape (RawFragment u) encodeFragment = Inr (Fragment u)
      then RawFragment u
      else escape (Fragment u) encodeFragment)"

definition parse :: "string \<Rightarrow> string + URL" where
  "parse rawURL =
     (if stringContainsCTLByte rawURL then Inl ''net/url: invalid control character in URL''
      else if rawURL = ''*'' then Inr (emptyURL\<lparr>Path := ''*''\<rparr>)
      else case getScheme rawURL of
        Inl err \<Rightarrow> Inl err
      | Inr (scheme, rest) \<Rightarrow>
          let url = emptyURL\<lparr>Scheme := ToLower scheme\<rparr>;
              (rest, url) =
                (if HasSuffix rest ''?'' \<and> count_list rest (CHR ''?'') = 1
                 then (butlast rest, url\<lparr>ForceQuery := True\<rparr>)
                 else case Cut rest ''?'' of (r, q, found) \<Rightarrow> (r, url\<lparr>RawQuery := q\<rparr>))
          in
          if \<not> HasPrefix rest ''/'' \<and> Scheme url \<noteq> [] then Inr (url\<lparr>Opaque := rest\<rparr>)
          else if \<not> HasPrefix rest ''/'' \<and> Contains (fst (Cut rest ''/'')) '':''
          then Inl ''first path segment in URL cannot contain colon''
          else if (Scheme url \<noteq> [] \<or> \<not> HasPrefix rest ''///'') \<and> HasPrefix rest ''//''
          then
            let authority = drop 2 rest;
                (authority, rest) =
                  (case Index authority ''/'' of
                     Some i \<Rightarrow> (take i authority, drop i authority)
                   | None \<Rightarrow> (authority, []))
            in case parseAuthority authority of
                 Inl err \<Rightarrow> Inl err
               | Inr (user, host) \<Rightarrow> setPath (url\<lparr>User := user, Host := host\<rparr>) rest
          else if Scheme url \<noteq> [] \<and> HasPrefix rest ''/''
          then setPath (url\<lparr>OmitHost := True\<rparr>) rest
          else setPath url rest)"

definition Parse :: "string \<Rightarrow> string + URL" where
  "Parse rawURL =
     (case Cut rawURL ''#'' of (u, frag, found) \<Rightarrow>
        case parse u of
          Inl err \<Rightarrow> Inl (''parse '' @ quote u @ '': '' @ err)
        | Inr url \<Rightarrow>
            if frag = [] then Inr url
            else case setFragment url frag of
              Inl err \<Rightarrow> Inl (''parse '' @ quote rawURL @ '': '' @ err)
            | Inr url \<Rightarrow> Inr url)"

text \<open>
  \<open>resolvePath\<close>: the loop over the segments of the merged path, with the text written so
  far and the flag \<open>first\<close> as its state.
\<close>

fun splitOn :: "char \<Rightarrow> string \<Rightarrow> string list" where
  "splitOn sep [] = [[]]"
| "splitOn sep (c # cs) =
     (if c = sep then [] # splitOn sep cs
      else case splitOn sep cs of
        [] \<Rightarrow> [[c]]
      | e # es \<Rightarrow> (c # e) # es)"

definition resolveStep :: "string \<times> bool \<Rightarrow> string \<Rightarrow> string \<times> bool" where
  "resolveStep st elem =
     (case st of (dst, first) \<Rightarrow>
        if elem = ''.'' then (dst, False)
        else if elem = ''..'' then
          (let str = drop 1 dst in
           case LastIndexByte str (CHR ''/'') of
             None \<Rightarrow> (''/'', True)
           | Some index \<Rightarrow> (''/'' @ take index str, first))
        else ((if first then dst else dst @ ''/'') @ elem, False))"

definition resolvePath :: "string \<Rightarrow> string \<Rightarrow> string" where
  "resolvePath base ref =
     (let full =
            (if ref = [] then base
             else if hd ref \<noteq> CHR ''/'' then
               (case LastIndexByte base (CHR ''/'') of
                  None \<Rightarrow> ref
                | Some i \<Rightarrow> take (Suc i) base @ ref)
             else ref)
      in if full = [] then []
         else
           let elems = splitOn (CHR ''/'') full;
               dst = fst (foldl resolveStep (''/'', True) elems);
               dst = (if last elems = ''.'' \<or> last elems = ''..'' then dst @ ''/'' else dst)
           in if length dst > 1 \<and> dst ! 1 = CHR ''/'' then drop 1 dst else dst)"

text \<open>\<open>ResolveReference\<close> ignores the error of \<open>setPath\<close>: the URL is left as it is then.\<close>

definition setPathIgnoringError :: "URL \<Rightarrow> string \<Rightarrow> URL" where
  "setPathIgnoringError u p = (case setPath u p of Inl err \<Rightarrow> u | Inr u' \<Rightarrow> u')"

definition ResolveReference :: "URL \<Rightarrow> URL \<Rightarrow> URL" where
  "ResolveReference u ref =
     (let url = (if Scheme ref = [] then ref\<lparr>Scheme := Scheme u\<rparr> else ref) in
      if Scheme ref \<noteq> [] \<or> Host ref \<noteq> [] \<or> User ref \<noteq> None
      then setPathIgnoringError url (resolvePath (EscapedPath ref) [])
      else if Opaque ref \<noteq> [] then url\<lparr>User := None, Host := [], Path := []\<rparr>
      else
        let url =
              (if Path ref = [] \<and> \<not> ForceQuery ref \<and> RawQuery ref = []
               then (if Fragment ref = []
                     then url\<lparr>RawQuery := RawQuery u, Fragment := Fragment u,
                            RawFragment := RawFragment u\<rparr>
                     else url\<lparr>RawQuery := RawQuery u\<rparr>)
               else url)
        in if Path ref = [] \<and> Opaque u \<noteq> []
           then url\<lparr>Opaque := Opaque u, User := None, Host := [], Path := []\<rparr>
           else setPathIgnoringError (url\<lparr>Host := Host u, User := User u\<rparr>)
                  (resolvePath (EscapedPath u) (EscapedPath ref)))"

definition userinfoString :: "Userinfo \<Rightarrow> string" where
  "userinfoString ui =
     escape (username ui) encodeUserPassword
     @ (if passwordSet ui then '':'' @ escape (password ui) encodeUserPassword else [])"

definition String :: "URL \<Rightarrow> string" where
  "String u =
     (let buf = (if Scheme u \<noteq> [] then Scheme u @ '':'' else []);
          buf =
            (if Opaque u \<noteq> [] then buf @ Opaque u
             else
               let buf =
                     (if Scheme u \<noteq> [] \<or> Host u \<noteq> [] \<or> User u \<noteq> None
                      then
                        (if OmitHost u \<and> Host u = [] \<and> User u = None then buf
                         else
                           (if Host u \<noteq> [] \<or> Path u \<noteq> [] \<or> User u \<noteq> None
                            then buf @ ''//'' else buf)
                           @ (case User u of None \<Rightarrow> [] | Some ui \<Rightarrow> userinfoString ui @ ''@'')
                           @ (if Host u \<noteq> [] then escape (Host u) encodeHost else []))
                      else buf);
                   path = EscapedPath u;
                   buf = (if path \<noteq> [] \<and> hd path \<noteq> CHR ''/'' \<and> Host u \<noteq> []
                          then buf @ ''/'' else buf);
                   buf = (if buf = [] \<and> Contains (fst (Cut path ''/'')) '':''
                          then buf @ ''./'' else buf)
               in buf @ path);
          buf = (if ForceQuery u \<or> RawQuery u \<noteq> [] then buf @ ''?'' @ RawQuery u else buf)
      in if Fragment u \<noteq> [] then buf @ ''#'' @ EscapedFragment u else buf)"

definition netURL :: urlLib where
  "netURL = \<lparr>urlParse = Parse, urlResolveReference = ResolveReference, urlString = String\<rparr>"

section \<open>HTML documents (goquery)\<close>

text \<open>
  A parsed document is the node tree of \<open>golang.org/x/net/html\<close>. \<open>Find\<close> returns the
  elements below the root that match a selector, in document order (pre-order), and
  \<open>nodeText\<close> is goquery's \<open>Text\<close>: the text nodes below a node, concatenated.
\<close>

datatype Node =
    DocumentNode "Node list"
  | ElementNode string "(string \<times> string) list" "Node list"
  | TextNode string
  | CommentNode string
  | DoctypeNode string

fun MatchAll :: "(Node \<Rightarrow> bool) \<Rightarrow> Node \<Rightarrow> Node list" where
  "MatchAll m (DocumentNode cs) =
     (if m (DocumentNode cs) then [DocumentNode cs] else []) @ concat (map (MatchAll m) cs)"
| "MatchAll m (ElementNode t as cs) =
     (if m (ElementNode t as cs) then [ElementNode t as cs] else [])
     @ concat (map (MatchAll m) cs)"
| "MatchAll m n = (if m n then [n] else [])"

fun children :: "Node \<Rightarrow> Node list" where
  "children (DocumentNode cs) = cs"
| "children (ElementNode _ _ cs) = cs"
| "children _ = []"

fun isElement :: "Node \<Rightarrow> bool" where
  "isElement (ElementNode _ _ _) = True"
| "isElement _ = False"

definition Find :: "Node \<Rightarrow> (Node \<Rightarrow> bool) \<Rightarrow> Node list" where
  "Find doc m = concat (map (MatchAll m) (filter isElement (children doc)))"

fun nodeText :: "Node \<Rightarrow> string" where
  "nodeText (TextNode d) = d"
| "nodeText (DocumentNode cs) = concat (map nodeText cs)"
| "nodeText (ElementNode _ _ cs) = concat (map nodeText cs)"
| "nodeText _ = []"

fun Attr :: "Node \<Rightarrow> string \<Rightarrow> string option" where
  "Attr (ElementNode _ as _) name = map_of as name"
| "Attr _ name = None"

text \<open>The selectors the scraper uses: a tag name, \<open>a[href]\<close> and \<open>meta[name='description']\<close>.\<close>

fun tagSelector :: "string \<Rightarrow> Node \<Rightarrow> bool" where
  "tagSelector t (ElementNode name _ _) = (name = t)"
| "tagSelector t _ = False"

fun attrExistsSelector :: "string \<Rightarrow> string \<Rightarrow> Node \<Rightarrow> bool" where
  "attrExistsSelector t key (ElementNode name as _) = (name = t \<and> key \<in> fst ` set as)"
| "attrExistsSelector t key _ = False"

fun attrEqualsSelector :: "string \<Rightarrow> string \<Rightarrow> string \<Rightarrow> Node \<Rightarrow> bool" where
  "attrEqualsSelector t key val (ElementNode name as _) = (name = t \<and> (key, val) \<in> set as)"
| "attrEqualsSelector t key val _ = False"

section \<open>The scraper (internal/scraper/scraper.go)\<close>

datatype Heading = Heading (Level: int) (Text: string)

datatype Link = Link (Text: string) (Href: string)

record Result =
  SourceURL :: string
  Title :: string
  Description :: string
  Headings :: "Heading list"
  Paragraphs :: "string list"
  Links :: "Link list"
  FetchedAt :: nat

text \<open>
  The HTTP client and its timeout belong to the environment. A slice expression
  \<open>xs[:limit]\<close> panics when \<open>limit\<close> is negative: the functions below return \<open>None\<close> then.
\<close>

record scraperConfig =
  MaxItems :: int

record Scraper =
  maxItems :: int

definition New :: "scraperConfig \<Rightarrow> Scraper" where
  "New cfg = \<lparr>maxItems = (if MaxItems cfg \<le> 0 then 10 else MaxItems cfg)\<rparr>"

definition truncateTo :: "int \<Rightarrow> 'a list \<Rightarrow> 'a list option" where
  "truncateTo limit xs =
     (if int (length xs) > limit
      then (if limit < 0 then None else Some (take (nat limit) xs))
      else Some xs)"

definition headingStep :: "int \<Rightarrow> Heading list \<Rightarrow> Node \<Rightarrow> Heading list" where
  "headingStep level hs sel =
     (let text = TrimSpace (nodeText sel) in
      if text = [] then hs else hs @ [Heading level text])"

definition collectHeadings :: "Node \<Rightarrow> int \<Rightarrow> Heading list option" where
  "collectHeadings doc limit =
     (let hs = foldl (\<lambda>hs level.
                  let selector = ''h'' @ itoa level
                  in foldl (headingStep level) hs (Find doc (tagSelector selector)))
                [] [1, 2, 3]
      in truncateTo limit hs)"

definition paragraphStep :: "string list \<Rightarrow> Node \<Rightarrow> string list" where
  "paragraphStep paragraphs sel =
     (let text = TrimSpace (nodeText sel) in
      if length text < 40 then paragraphs else paragraphs @ [text])"

definition collectParagraphs :: "Node \<Rightarrow> int \<Rightarrow> string list option" where
  "collectParagraphs doc limit =
     truncateTo limit (foldl paragraphStep [] (Find doc (tagSelector ''p'')))"

definition linkStep ::
  "urlLib \<Rightarrow> URL \<Rightarrow> string set \<times> Link list \<Rightarrow> Node \<Rightarrow> string set \<times> Link list" where
  "linkStep lib base st sel =
     (case st of (seen, links) \<Rightarrow>
        case Attr sel ''href'' of
          None \<Rightarrow> (seen, links)
        | Some href \<Rightarrow>
            let trimmed = TrimSpace href in
            if trimmed = [] then (seen, links)
            else
              let resolved =
                    (case urlParse lib trimmed of
                       Inl err \<Rightarrow> trimmed
                     | Inr parsed \<Rightarrow> urlString lib (urlResolveReference lib base parsed))
              in if resolved \<in> seen then (seen, links)
                 else
                   let text = TrimSpace (nodeText sel);
                       text = (if text = [] then resolved else text)
                   in (insert resolved seen, links @ [Link text resolved]))"

text \<open>
  \<open>sort.SliceStable\<close> with the comparison \<open>links[i].Text < links[j].Text\<close> is the stable
  sort by the key \<open>Text\<close>.
\<close>

definition collectLinks :: "urlLib \<Rightarrow> URL \<Rightarrow> Node \<Rightarrow> int \<Rightarrow> Link list option" where
  "collectLinks lib base doc limit =
     (let links = snd (foldl (linkStep lib base) ({}, [])
                         (Find doc (attrExistsSelector ''a'' ''href'')))
      in map_option (sort_key Link.Text) (truncateTo limit links))"

text \<open>
  The extraction as the specification words it: the block of headings of one level, the
  texts of the paragraphs, the link of an anchor, and the links with the later
  occurrences of a resolved href removed.
\<close>

definition headingsOfLevel :: "Node \<Rightarrow> int \<Rightarrow> Heading list" where
  "headingsOfLevel doc level =
     map (Heading level)
       (filter (\<lambda>text. text \<noteq> [])
          (map (\<lambda>sel. TrimSpace (nodeText sel)) (Find doc (tagSelector (''h'' @ itoa level)))))"

definition paragraphTexts :: "Node \<Rightarrow> string list" where
  "paragraphTexts doc = map (\<lambda>sel. TrimSpace (nodeText sel)) (Find doc (tagSelector ''p''))"

definition resolveHref :: "urlLib \<Rightarrow> URL \<Rightarrow> string \<Rightarrow> string" where
  "resolveHref lib base trimmed =
     (case urlParse lib trimmed of
        Inl err \<Rightarrow> trimmed
      | Inr parsed \<Rightarrow> urlString lib (urlResolveReference lib base parsed))"

definition anchorLink :: "urlLib \<Rightarrow> URL \<Rightarrow> Node \<Rightarrow> Link option" where
  "anchorLink lib base sel =
     (case Attr sel ''href'' of
        None \<Rightarrow> None
      | Some href \<Rightarrow>
          if TrimSpace href = [] then None
          else Some (Link (if TrimSpace (nodeText sel) = []
                           then resolveHref lib base (TrimSpace href)
                           else TrimSpace (nodeText sel))
                          (resolveHref lib base (TrimSpace href))))"

definition anchorLinks :: "urlLib \<Rightarrow> URL \<Rightarrow> Node \<Rightarrow> Link list" where
  "anchorLinks lib base doc =
     List.map_filter (anchorLink lib base) (Find doc (attrExistsSelector ''a'' ''href''))"

function firstByHref :: "Link list \<Rightarrow> Link list" where
  "firstByHref [] = []"
| "firstByHref (l # ls) = l # firstByHref (filter (\<lambda>d. Href d \<noteq> Href l) ls)"
  by pat_completeness auto
termination
  by (relation "measure length") (auto simp: less_Suc_eq_le)

text \<open>What the network and the HTML parser give back.\<close>

datatype httpOutcome =
    TransportError string
  | Response int string

datatype scrapeOutcome =
    Scraped Result
  | ScrapeError string
  | ScrapePanic

record scrapeEnv =
  urls :: urlLib
  httpGet :: "string \<Rightarrow> httpOutcome"
  parseHTML :: "string \<Rightarrow> string + Node"
  now :: nat

definition Scrape :: "'a scrapeEnv_scheme \<Rightarrow> Scraper \<Rightarrow> string \<Rightarrow> scrapeOutcome" where
  "Scrape env s target =
     (if target = [] then ScrapeError ''target URL is empty''
      else case urlParse (urls env) target of
        Inl err \<Rightarrow> ScrapeError (''invalid URL: '' @ err)
      | Inr parsed \<Rightarrow>
          if \<not> IsAbs parsed then ScrapeError ''invalid URL: %!w(<nil>)''
          else case httpGet env target of
            TransportError err \<Rightarrow> ScrapeError (''fetch document: '' @ err)
          | Response status body \<Rightarrow>
              if status \<ge> 400 then ScrapeError (''unexpected status code '' @ itoa status)
              else case parseHTML env (take (4 * 1024 * 1024) body) of
                Inl err \<Rightarrow> ScrapeError (''parse document: '' @ err)
              | Inr doc \<Rightarrow>
                  let title = TrimSpace (case Find doc (tagSelector ''title'') of
                                           [] \<Rightarrow> [] | n # _ \<Rightarrow> nodeText n);
                      description =
                        (case Find doc (attrEqualsSelector ''meta'' ''name'' ''description'') of
                           [] \<Rightarrow> []
                         | n # _ \<Rightarrow> (case Attr n ''content'' of
                                       None \<Rightarrow> [] | Some metaDesc \<Rightarrow> TrimSpace metaDesc))
                  in case (collectHeadings doc (maxItems s),
                           collectParagraphs doc (maxItems s),
                           collectLinks (urls env) parsed doc (maxItems s)) of
                       (Some headings, Some paragraphs, Some links) \<Rightarrow>
                         Scraped \<lparr>SourceURL = target, Title = title,
                           Description = description, Headings = headings,
                           Paragraphs = paragraphs, Links = links, FetchedAt = now env\<rparr>
                     | _ \<Rightarrow> ScrapePanic)"

section \<open>The LLM client (internal/llm/client.go)\<close>

record llmConfig =
  BaseURL :: string
  Model :: string
  APIKey :: string

record Client =
  baseURL :: string
  model :: string
  apiKey :: string

text \<open>\<open>NewClient\<close>: an empty endpoint gives the zero client, which is disabled.\<close>

definition NewClient :: "llmConfig \<Rightarrow> Client" where
  "NewClient cfg =
     (if BaseURL cfg = [] then \<lparr>baseURL = [], model = [], apiKey = []\<rparr>
      else \<lparr>baseURL = TrimRight (BaseURL cfg) ''/'', model = Model cfg, apiKey = APIKey cfg\<rparr>)"

text \<open>A \<open>*Client\<close> may be nil: \<open>None\<close>.\<close>

definition Available :: "Client option \<Rightarrow> bool" where
  "Available c = (case c of None \<Rightarrow> False | Some c \<Rightarrow> baseURL c \<noteq> [])"

definition completionsURL :: "Client \<Rightarrow> string" where
  "completionsURL c =
     (if baseURL c = [] then []
      else if HasSuffix (baseURL c) ''/v1/chat/completions'' then baseURL c
      else let trimmed = TrimRight (baseURL c) ''/'' in
        if HasSuffix trimmed ''/v1'' then trimmed @ ''/chat/completions''
        else trimmed @ ''/v1/chat/completions'')"

text \<open>
  The endpoint normalization of a configured base URL: the URL that a client built from
  that base posts to.
\<close>

definition normalizeEndpoint :: "string \<Rightarrow> string" where
  "normalizeEndpoint x = completionsURL (NewClient \<lparr>BaseURL = x, Model = [], APIKey = []\<rparr>)"

datatype llmError =
    ErrUnavailable
  | Wrapped string string
  | HTTPError int string
  | ErrEmpty

fun errorText :: "llmError \<Rightarrow> string" where
  "errorText ErrUnavailable = ''llm unavailable''"
| "errorText (Wrapped what err) = what @ '': '' @ err"
| "errorText (HTTPError status body) = ''llm returned status '' @ itoa status"
| "errorText ErrEmpty = ''llm response empty''"

text \<open>
  \<open>IsRateLimited\<close>: \<open>errors.As\<close> finds an \<open>*HTTPError\<close> only in the error that
  \<open>GeneratePage\<close> returns for a status of 400 or more; the errors it wraps come from the
  encoder, the transport and the decoder.
\<close>

fun IsRateLimited :: "llmError \<Rightarrow> bool" where
  "IsRateLimited (HTTPError status body) = (status = 429)"
| "IsRateLimited _ = False"

definition sanitizeLLMOutput :: "string \<Rightarrow> string" where
  "sanitizeLLMOutput content =
     (let trimmed = TrimSpace content in
      if \<not> HasPrefix trimmed ''```'' then trimmed
      else
        let trimmed = TrimPrefix trimmed ''```'';
            trimmed = TrimSpace trimmed;
            trimmed = (if HasPrefix trimmed ''html''
                       then TrimSpace (TrimPrefix trimmed ''html'') else trimmed);
            trimmed = (case Index trimmed ''```'' of Some idx \<Rightarrow> take idx trimmed
                       | None \<Rightarrow> trimmed)
        in TrimSpace trimmed)"

text \<open>The two middle steps of \<open>sanitizeLLMOutput\<close>, named for the proofs.\<close>

definition stripHtmlTag :: "string \<Rightarrow> string" where
  "stripHtmlTag t = (if HasPrefix t ''html'' then TrimSpace (TrimPrefix t ''html'') else t)"

definition cutAtFence :: "string \<Rightarrow> string" where
  "cutAtFence t = (case Index t ''```'' of Some idx \<Rightarrow> take idx t | None \<Rightarrow> t)"

record chatMessage =
  Role :: string
  Content :: string

record chatCompletionRequest =
  reqModel :: string
  Messages :: "chatMessage list"
  Temperature :: "nat \<times> nat"

record chatCompletionResponse =
  Choices :: "chatMessage list"

definition FirstMessage :: "chatCompletionResponse \<Rightarrow> string" where
  "FirstMessage r = (case Choices r of [] \<Rightarrow> [] | m # _ \<Rightarrow> Content m)"

definition systemPrompt :: string where
  "systemPrompt = ''You are a helpful assistant that turns structured website data into clean, self-contained HTML pages without using Markdown code fences. Infer the purpose or theme of the content, tailor the layout accordingly, and preserve every piece of information and link without summarising or omitting details.''"

definition buildPrompt :: "Result \<Rightarrow> string" where
  "buildPrompt data =
     ''You are a helpful assistant that converts scraped website data into clean HTML.\<newline>''
     @ ''Study the information, infer the primary theme or purpose of the source page, and reflect it in the layout and copy.\<newline>''
     @ ''Reimagine the page with modern styling and structure while faithfully preserving all information, wording, lists, tables, media references, and outbound links.\<newline>''
     @ ''Do not summarise or omit details''
     @ [CHR 0xC3, CHR 0xA2, CHR 0xE2, CHR 0x82, CHR 0xAC, CHR 0xE2, CHR 0x80, CHR 0x9D]
     @ ''represent the source content in full, simply with improved presentation.\<newline>''
     @ ''Use semantic HTML5, include a descriptive hero or title section, themed subsections, and contextual highlights that match the inferred theme.\<newline>''
     @ ''Ensure every original link is present and clickable, and reference the original source prominently.\<newline>''
     @ ''Do not wrap the output in Markdown code fences.\<newline>\<newline>''
     @ ''Source URL: '' @ SourceURL data @ ''\<newline>''
     @ (if Title data \<noteq> [] then ''Title: '' @ Title data @ ''\<newline>'' else [])
     @ (if Description data \<noteq> [] then ''Description: '' @ Description data @ ''\<newline>'' else [])
     @ (if Headings data \<noteq> []
        then ''Headings:\<newline>''
          @ concat (map (\<lambda>h. ''- H'' @ itoa (Level h) @ '' '' @ Heading.Text h @ ''\<newline>'')
                      (Headings data))
        else [])
     @ (if Paragraphs data \<noteq> []
        then ''Paragraphs:\<newline>'' @ concat (map (\<lambda>p. ''- '' @ p @ ''\<newline>'') (Paragraphs data))
        else [])
     @ (if Links data \<noteq> []
        then ''Links:\<newline>''
          @ concat (map (\<lambda>link. ''- '' @ Link.Text link @ '' -> '' @ Href link @ ''\<newline>'')
                      (Links data))
        else [])
     @ ''\<newline>Return only raw HTML inside <html> tags.''"

record llmEnv = scrapeEnv +
  llmPost :: "string \<Rightarrow> (string \<times> string) list \<Rightarrow> chatCompletionRequest \<Rightarrow> httpOutcome"
  decodeResponse :: "string \<Rightarrow> string + chatCompletionResponse"

definition GeneratePage :: "'a llmEnv_scheme \<Rightarrow> Client option \<Rightarrow> Result \<Rightarrow> llmError + string" where
  "GeneratePage env c data =
     (if \<not> Available c then Inl ErrUnavailable
      else
        let c = the c;
            payload = \<lparr>reqModel = model c,
                       Messages = [\<lparr>Role = ''system'', Content = systemPrompt\<rparr>,
                                   \<lparr>Role = ''user'', Content = buildPrompt data\<rparr>],
                       Temperature = (2, 10)\<rparr>
        in case urlParse (urls env) (completionsURL c) of
          Inl err \<Rightarrow> Inl (Wrapped ''build request'' err)
        | Inr _ \<Rightarrow>
            let header = [(''Content-Type'', ''application/json'')]
                  @ (if apiKey c \<noteq> [] then [(''Authorization'', ''Bearer '' @ apiKey c)] else [])
            in case llmPost env (completionsURL c) header payload of
              TransportError err \<Rightarrow> Inl (Wrapped ''post llm request'' err)
            | Response status body \<Rightarrow>
                if status \<ge> 400 then Inl (HTTPError status (take (2 ^ 20) body))
                else case decodeResponse env body of
                  Inl err \<Rightarrow> Inl (Wrapped ''decode llm response'' err)
                | Inr parsed \<Rightarrow>
                    let html = sanitizeLLMOutput (FirstMessage parsed)
                    in if html = [] then Inl ErrEmpty else Inr html)"

section \<open>The orchestrator (internal/browser/app.go)\<close>

record appLLMSettings =
  settingsBaseURL :: string
  settingsModel :: string
  settingsAPIKey :: string

record browserConfig =
  cfgScraper :: "Scraper option"
  LLM :: "Client option"
  LLMConfig :: llmConfig
  UseLLM :: bool
  AppID :: string
  AppTitle :: string

record App =
  cfg :: browserConfig
  llmClient :: "Client option"
  llmSettings :: appLLMSettings
  llmPreferred :: bool
  llmLastMode :: bool
  llmLastSet :: bool
  lastSource :: string

definition NewApp :: "browserConfig \<Rightarrow> string + App" where
  "NewApp config =
     (if cfgScraper config = None then Inl ''scraper is required''
      else
        let config = (if AppID config = [] then config\<lparr>AppID := ''com.example.chimera''\<rparr>
                      else config);
            config = (if AppTitle config = [] then config\<lparr>AppTitle := ''Chimera Browser''\<rparr>
                      else config)
        in Inr \<lparr>cfg = config, llmClient = LLM config,
                 llmSettings = \<lparr>settingsBaseURL = TrimSpace (BaseURL (LLMConfig config)),
                                 settingsModel = TrimSpace (Model (LLMConfig config)),
                                 settingsAPIKey = TrimSpace (APIKey (LLMConfig config))\<rparr>,
                 llmPreferred = UseLLM config, llmLastMode = False, llmLastSet = False,
                 lastSource = []\<rparr>)"

text \<open>
  What the program schedules on the UI thread, in the order it schedules it: log lines,
  status texts, the text of the URL entry, and pages loaded into the web view (each followed
  by the status \<open>Done\<close>).
\<close>

datatype event =
    Log string
  | SetStatus string
  | SetEntry string
  | LoadHTML string

text \<open>The template of \<open>renderSimple\<close> is run by html/template: a parameter.\<close>

record env = llmEnv +
  renderSimple :: "Result \<Rightarrow> string + string"

definition renderHTML :: "string \<Rightarrow> event list" where
  "renderHTML html = [LoadHTML html]"

definition renderError :: "string \<Rightarrow> event list" where
  "renderError msg =
     Log msg # renderHTML (''<!DOCTYPE html><html><head><meta charset=\"utf-8\"><style>body{font-family:sans-serif;background:#222;color:#eee;padding:2rem;}h1{color:#f66;}code{color:#9cf;}</style></head><body><h1>Chimera Error</h1><p>''
       @ HTMLEscapeString msg @ ''</p></body></html>'')"

definition currentLLM :: "App \<Rightarrow> Client option" where
  "currentLLM a = llmClient a"

definition llmAvailable :: "App \<Rightarrow> bool" where
  "llmAvailable a = Available (currentLLM a)"

definition prefersLLM :: "App \<Rightarrow> bool" where
  "prefersLLM a =
     (if \<not> llmPreferred a then False
      else if llmClient a = None then False
      else Available (llmClient a))"

definition navigationMode :: "App \<Rightarrow> bool" where
  "navigationMode a =
     (let use = llmLastMode a; isSet = llmLastSet a; client = llmClient a;
          preferred = llmPreferred a;
          available = Available client
      in if isSet then (if use \<and> available then True else False)
         else preferred \<and> available)"

definition setLastMode :: "App \<Rightarrow> bool \<Rightarrow> App" where
  "setLastMode a use = a\<lparr>llmLastMode := use, llmLastSet := True\<rparr>"

definition setLastSource :: "App \<Rightarrow> string \<Rightarrow> App" where
  "setLastSource a src = a\<lparr>lastSource := TrimSpace src\<rparr>"

definition lastSourceURL :: "App \<Rightarrow> string" where
  "lastSourceURL a = lastSource a"

text \<open>\<open>resolveTarget\<close>: \<open>None\<close> is the result \<open>("", false)\<close>.\<close>

definition resolveTarget :: "urlLib \<Rightarrow> App \<Rightarrow> string \<Rightarrow> string option" where
  "resolveTarget lib a target =
     (let trimmed = TrimSpace target in
      if trimmed = [] then None
      else case urlParse lib trimmed of
        Inl err \<Rightarrow> None
      | Inr parsed \<Rightarrow>
          if IsAbs parsed then
            (if Scheme parsed = ''http'' \<or> Scheme parsed = ''https''
             then Some (urlString lib parsed) else None)
          else
            let base = lastSourceURL a in
            if base = [] then None
            else case urlParse lib base of
              Inl err \<Rightarrow> None
            | Inr baseURL' \<Rightarrow>
                let resolved = urlResolveReference lib baseURL' parsed in
                if Scheme resolved = ''http'' \<or> Scheme resolved = ''https''
                then Some (urlString lib resolved) else None)"

text \<open>
  The last statements of \<open>handleScrape\<close>, which the template mode and the rate-limit
  fallback both reach: the deterministic template, or the error page when it fails.
\<close>

definition renderScraped :: "env \<Rightarrow> Result \<Rightarrow> event list" where
  "renderScraped env result =
     (case renderSimple env result of
        Inl err \<Rightarrow> renderError (''Render error: '' @ err)
      | Inr html \<Rightarrow> renderHTML html)"

text \<open>
  \<open>handleScrape\<close> returns the new state and the events it scheduled; \<open>None\<close> when the
  goroutine panics (a nil scraper, a negative item limit).
\<close>

definition handleScrape :: "env \<Rightarrow> App \<Rightarrow> string \<Rightarrow> bool \<Rightarrow> (App \<times> event list) option" where
  "handleScrape env a target useLLM =
     (case cfgScraper (cfg a) of
        None \<Rightarrow> None
      | Some scraper \<Rightarrow>
          case Scrape env scraper target of
            ScrapePanic \<Rightarrow> None
          | ScrapeError err \<Rightarrow> Some (a, renderError (''Scrape failed: '' @ err))
          | Scraped result \<Rightarrow>
              let a = setLastSource a (SourceURL result);
                  client = currentLLM a
              in if useLLM \<and> client \<noteq> None \<and> Available client then
                   (case GeneratePage env client result of
                      Inr html \<Rightarrow> Some (a, renderHTML html)
                    | Inl err \<Rightarrow>
                        if IsRateLimited err then
                          Some (setLastMode a False,
                            [Log (''llm rate limited; falling back to scraped view: ''
                                  @ errorText err),
                             SetStatus ''LLM rate limited; showing scraped view'']
                            @ renderScraped env result)
                        else Some (a, renderError (''LLM fallback: '' @ errorText err)))
                 else Some (a, renderScraped env result))"

text \<open>
  The navigation callback of \<open>activate\<close>: whether the navigation was intercepted, and for
  an intercepted one the state after the mode decision, the events, and the fetch that the
  callback starts.
\<close>

definition onNavigate :: "env \<Rightarrow> App \<Rightarrow> string \<Rightarrow> (App \<times> event list \<times> string \<times> bool) option" where
  "onNavigate env a target =
     (case resolveTarget (urls env) a target of
        None \<Rightarrow> None
      | Some resolved \<Rightarrow>
          let useLLM = navigationMode a;
              a = setLastMode a useLLM
          in Some (a, [SetEntry resolved, SetStatus ''Scraping...''], resolved, useLLM))"

text \<open>The button and entry handlers of \<open>activate\<close>, on the text of the URL entry.\<close>

definition scrape :: "App \<Rightarrow> string \<Rightarrow> bool \<Rightarrow> (App \<times> event list \<times> (string \<times> bool) option)" where
  "scrape a url useLLM =
     (let trimmed = TrimSpace url in
      if trimmed = [] then (a, [SetStatus ''Please provide a URL''], None)
      else (setLastMode a useLLM, [SetStatus ''Scraping...''], Some (trimmed, useLLM)))"

definition applySettings :: "App \<Rightarrow> appLLMSettings \<Rightarrow> bool \<Rightarrow> App" where
  "applySettings a settings prefer =
     (let settings = \<lparr>settingsBaseURL = TrimSpace (settingsBaseURL settings),
                       settingsModel = TrimSpace (settingsModel settings),
                       settingsAPIKey = TrimSpace (settingsAPIKey settings)\<rparr>;
          cfg' = \<lparr>BaseURL = settingsBaseURL settings, Model = settingsModel settings,
                   APIKey = settingsAPIKey settings\<rparr>;
          client = NewClient cfg'
      in a\<lparr>llmClient := Some client, llmPreferred := prefer, llmSettings := settings,
            cfg := (cfg a)\<lparr>LLM := Some client, UseLLM := prefer, LLMConfig := cfg'\<rparr>\<rparr>)"

text \<open>The sticky mode of the specification, read off the two flags of the state.\<close>

datatype mode = unset | composed | template

definition stickyMode :: "App \<Rightarrow> mode" where
  "stickyMode a = (if \<not> llmLastSet a then unset else if llmLastMode a then composed else template)"


text \<open>
  One in-page navigation run to its end: the callback, then the fetch it started, with
  no other fetch in between.
\<close>

definition navigate :: "env \<Rightarrow> App \<Rightarrow> string \<Rightarrow> (App \<times> event list \<times> bool) option" where
  "navigate env a target =
     (case onNavigate env a target of
        None \<Rightarrow> Some (a, [], False)
      | Some (a, evs, resolved, useLLM) \<Rightarrow>
          map_option (\<lambda>(a, evs'). (a, evs @ evs', True)) (handleScrape env a resolved useLLM))"

section \<open>Scenarios\<close>

text \<open>Pages, an environment and states for the concrete scenarios of the claims.\<close>

definition threeH1 :: Node where
  "threeH1 = DocumentNode [ElementNode ''html'' []
     [ElementNode ''head'' [] [],
      ElementNode ''body'' []
        [ElementNode ''h2'' [] [TextNode ''Sub''],
         ElementNode ''h1'' [] [TextNode '' One ''],
         ElementNode ''div'' [] [ElementNode ''h1'' [] [TextNode ''Two''],
                                 ElementNode ''h3'' [] [TextNode ''Deep'']],
         ElementNode ''h1'' [] [TextNode ''Three'']]]]"

definition cyrillicParagraph :: Node where
  "cyrillicParagraph =
     ElementNode ''p'' [] [TextNode (concat (replicate 20 [CHR 0xD0, CHR 0xB4]))]"

definition twoParagraphs :: Node where
  "twoParagraphs = DocumentNode [ElementNode ''html'' [] [ElementNode ''body'' []
     [ElementNode ''p'' [] [TextNode ''too short''],
      ElementNode ''p'' [] [TextNode ''  The first paragraph that is long enough to keep. ''],
      ElementNode ''p'' [] [TextNode ''The second paragraph that is long enough to keep.'']]]]"

definition exampleBase :: URL where
  "exampleBase = emptyURL\<lparr>Scheme := ''https'', Host := ''a.example'', Path := ''/base''\<rparr>"

definition sameHrefPage :: Node where
  "sameHrefPage = DocumentNode [ElementNode ''html'' [] [ElementNode ''body'' []
     [ElementNode ''a'' [(''href'', ''/y'')] [TextNode ''zebra''],
      ElementNode ''a'' [(''href'', '' https://a.example/y '')] [TextNode ''apple''],
      ElementNode ''a'' [(''href'', ''m'')] [],
      ElementNode ''a'' [(''name'', ''top'')] [TextNode ''no href''],
      ElementNode ''a'' [(''href'', ''/b'')] [TextNode ''banana'']]]]"

text \<open>
  An environment in which every page is the empty document, the LLM endpoint answers
  every request with the given status, and the template prints the source URL.
\<close>

definition exampleEnv :: "int \<Rightarrow> env" where
  "exampleEnv status =
     \<lparr>urls = netURL, httpGet = (\<lambda>url. Response 200 []),
      parseHTML = (\<lambda>body. Inr (DocumentNode [])), now = 0,
      llmPost = (\<lambda>url header payload. Response status []),
      decodeResponse = (\<lambda>body. Inl ''unexpected end of JSON input''),
      renderSimple = (\<lambda>result. Inr (''<title>'' @ SourceURL result @ ''</title>''))\<rparr>"

definition exampleApp :: "string \<Rightarrow> App" where
  "exampleApp base =
     \<lparr>cfg = \<lparr>cfgScraper = Some (New \<lparr>MaxItems = 0\<rparr>),
              LLM = Some (NewClient \<lparr>BaseURL = base, Model = ''llama3'', APIKey = []\<rparr>),
              LLMConfig = \<lparr>BaseURL = base, Model = ''llama3'', APIKey = []\<rparr>,
              UseLLM = True, AppID = ''com.example.chimera'', AppTitle = ''Chimera Browser''\<rparr>,
      llmClient = Some (NewClient \<lparr>BaseURL = base, Model = ''llama3'', APIKey = []\<rparr>),
      llmSettings = \<lparr>settingsBaseURL = base, settingsModel = ''llama3'',
                      settingsAPIKey = []\<rparr>,
      llmPreferred = True, llmLastMode = True, llmLastSet = True, lastSource = []\<rparr>"

text \<open>What the scraper extracts from the empty document fetched at a target.\<close>

definition emptyResult :: "string \<Rightarrow> Result" where
  "emptyResult target = \<lparr>SourceURL = target, Title = [], Description = [], Headings = [],
     Paragraphs = [], Links = [], FetchedAt = 0\<rparr>"

section \<open>Facts about strings\<close>

lemma runeAt_None_iff:
  "runeAt ws s = None \<longleftrightarrow> (\<forall>w\<in>set ws. w \<noteq> [] \<longrightarrow> \<not> prefix w s)"
  by (auto simp: runeAt_def find_None_iff)


lemma trimLeftRunes_fixed: "runeAt ws s = None \<Longrightarrow> trimLeftRunes ws s = s"
  by (simp add: trimLeftRunes.simps)

lemma runeAt_trimLeftRunes: "runeAt ws (trimLeftRunes ws s) = None"
proof (induction ws s rule: trimLeftRunes.induct)
  case (1 ws s)
  then show ?case
    by (subst trimLeftRunes.simps) (simp split: option.splits)
qed

lemma suffix_trimLeftRunes: "suffix (trimLeftRunes ws s) s"
proof (induction ws s rule: trimLeftRunes.induct)
  case (1 ws s)
  show ?case
  proof (cases "runeAt ws s")
    case None
    then show ?thesis by (simp add: trimLeftRunes_fixed)
  next
    case (Some w)
    with 1 have "suffix (trimLeftRunes ws (drop (length w) s)) (drop (length w) s)"
      by simp
    then have "suffix (trimLeftRunes ws (drop (length w) s)) s"
      using suffix_drop suffix_order.order_trans by blast
    with Some show ?thesis by (subst trimLeftRunes.simps) simp
  qed
qed

lemma prefix_trimRightRunes: "prefix (trimRightRunes ws s) s"
  using suffix_trimLeftRunes [of "map rev ws" "rev s"]
  by (simp add: trimRightRunes_def suffix_to_prefix)

lemma runeAt_prefix_None: "runeAt ws s = None \<Longrightarrow> prefix p s \<Longrightarrow> runeAt ws p = None"
  unfolding runeAt_None_iff using prefix_order.order_trans by blast

lemma trimRightRunes_fixed:
  "runeAt (map rev ws) (rev s) = None \<Longrightarrow> trimRightRunes ws s = s"
  by (simp add: trimRightRunes_def trimLeftRunes_fixed)

lemma TrimSpace_leading: "runeAt spaceRunes (TrimSpace s) = None"
  unfolding TrimSpace_def
  by (rule runeAt_prefix_None [OF runeAt_trimLeftRunes prefix_trimRightRunes])

lemma TrimSpace_trailing: "runeAt (map rev spaceRunes) (rev (TrimSpace s)) = None"
  by (simp add: TrimSpace_def trimRightRunes_def runeAt_trimLeftRunes)

lemma TrimSpace_fixed:
  "runeAt spaceRunes s = None \<Longrightarrow> runeAt (map rev spaceRunes) (rev s) = None \<Longrightarrow> TrimSpace s = s"
  by (simp add: TrimSpace_def trimRightRunes_fixed trimLeftRunes_fixed)

lemma TrimSpace_idem: "TrimSpace (TrimSpace s) = TrimSpace s"
  by (rule TrimSpace_fixed [OF TrimSpace_leading TrimSpace_trailing])

lemma sublist_TrimSpace: "sublist (TrimSpace s) s"
proof -
  have "sublist (TrimSpace s) (trimLeftRunes spaceRunes s)"
    unfolding TrimSpace_def by (rule prefix_imp_sublist [OF prefix_trimRightRunes])
  moreover have "sublist (trimLeftRunes spaceRunes s) s"
    by (rule suffix_imp_sublist [OF suffix_trimLeftRunes])
  ultimately show ?thesis
    using sublist_order.order_trans by blast
qed

lemma Index_None_iff: "Index s sub = None \<longleftrightarrow> \<not> sublist sub s"
  by (induction s) (auto simp: sublist_Cons_right)

lemma Index_take_None:
  "Index s sub = Some i \<Longrightarrow> sub \<noteq> [] \<Longrightarrow> Index (take i s) sub = None"
proof (induction s arbitrary: i)
  case Nil
  then show ?case by (simp split: if_splits)
next
  case (Cons c cs)
  show ?case
  proof (cases "prefix sub (c # cs)")
    case True
    with Cons.prems show ?thesis by simp
  next
    case False
    with Cons.prems obtain j where j: "Index cs sub = Some j" "i = Suc j"
      by auto
    have "\<not> prefix sub (c # take j cs)"
      using False by (metis prefix_order.order_trans take_is_prefix take_Suc_Cons)
    with Cons.IH [OF j(1) Cons.prems(2)] j show ?thesis
      by simp
  qed
qed

lemma cut_no_fence:
  assumes "sub \<noteq> []"
  shows "\<not> sublist sub (case Index u sub of Some idx \<Rightarrow> take idx u | None \<Rightarrow> u)"
proof (cases "Index u sub")
  case None
  then have "\<not> sublist sub u" using Index_None_iff by blast
  with None show ?thesis by simp
next
  case (Some i)
  from Index_take_None [OF this assms] have "\<not> sublist sub (take i u)"
    using Index_None_iff by blast
  with Some show ?thesis by simp
qed

lemma sanitize_unfold:
  "sanitizeLLMOutput s =
     (if \<not> HasPrefix (TrimSpace s) ''```'' then TrimSpace s
      else TrimSpace (cutAtFence (stripHtmlTag (TrimSpace (TrimPrefix (TrimSpace s) ''```'')))))"
  unfolding sanitizeLLMOutput_def Let_def stripHtmlTag_def cutAtFence_def
  by (rule refl)

lemma sanitize_plain:
  "\<not> HasPrefix (TrimSpace s) ''```'' \<Longrightarrow> sanitizeLLMOutput s = TrimSpace s"
  by (simp add: sanitize_unfold)

lemma sanitize_fenced_no_fence:
  assumes "HasPrefix (TrimSpace s) ''```''"
  shows "\<not> sublist ''```'' (sanitizeLLMOutput s)"
proof -
  obtain u where u: "sanitizeLLMOutput s = TrimSpace (cutAtFence u)"
    using assms by (simp only: sanitize_unfold not_True_eq_False if_False)
  have "\<not> sublist ''```'' (cutAtFence u)"
    unfolding cutAtFence_def by (rule cut_no_fence) simp
  then show ?thesis
    unfolding u using sublist_TrimSpace sublist_order.order_trans by blast
qed

lemma sanitize_no_leading_fence: "\<not> HasPrefix (sanitizeLLMOutput s) ''```''"
proof (cases "HasPrefix (TrimSpace s) ''```''")
  case True
  from sanitize_fenced_no_fence [OF this] show ?thesis
    unfolding HasPrefix_def using prefix_imp_sublist by blast
next
  case False
  then show ?thesis by (simp add: sanitize_plain)
qed

lemma sanitize_trimmed: "TrimSpace (sanitizeLLMOutput s) = sanitizeLLMOutput s"
  by (simp only: sanitize_unfold TrimSpace_idem if_distrib [of TrimSpace] if_cancel)



lemma runeAt_Nil: "runeAt ws [] = None"
  by (simp add: runeAt_None_iff)

















section \<open>Endpoint normalization\<close>

lemma TrimRight_no_cut:
  assumes "s \<noteq> []" and "last s \<notin> set cutset"
  shows "TrimRight s cutset = s"
  using assms by (cases s rule: rev_cases) (simp_all add: TrimRight_def)

lemma completionsURL_shape:
  "completionsURL c = [] \<or> suffix ''/v1/chat/completions'' (completionsURL c)"
proof -
  have "suffix ''/v1'' t \<Longrightarrow> suffix ''/v1/chat/completions'' (t @ ''/chat/completions'')" for t
    by (auto simp: suffix_def)
  then show ?thesis
    by (auto simp: completionsURL_def HasSuffix_def Let_def suffix_def)
qed

lemma completionsURL_fixed:
  assumes "suffix ''/v1/chat/completions'' y"
  shows "completionsURL \<lparr>baseURL = TrimRight y ''/'', model = m, apiKey = k\<rparr> = y"
proof -
  from assms obtain z where y: "y = z @ ''/v1/chat/completions''"
    by (auto simp: suffix_def)
  then have "y \<noteq> []" and "last y = CHR ''s''"
    by simp_all
  then have "TrimRight y ''/'' = y"
    by (intro TrimRight_no_cut) simp_all
  with assms \<open>y \<noteq> []\<close> show ?thesis
    by (simp add: completionsURL_def HasSuffix_def)
qed

text \<open>
  C3. Endpoint normalization is idempotent: for every configured base URL \<open>x\<close>,
  normalizing the normalized URL gives it back unchanged; the same holds for
  \<open>completionsURL\<close> applied to a client whose base is already a completions URL.
\<close>

theorem normalizeEndpoint_idempotent:
  "normalizeEndpoint (normalizeEndpoint x) = normalizeEndpoint x
   \<and> completionsURL (c\<lparr>baseURL := completionsURL c\<rparr>) = completionsURL c"
proof
  show "normalizeEndpoint (normalizeEndpoint x) = normalizeEndpoint x"
  proof (cases "normalizeEndpoint x = []")
    case True
    then show ?thesis
      by (simp add: normalizeEndpoint_def NewClient_def completionsURL_def)
  next
    case False
    with completionsURL_shape have "suffix ''/v1/chat/completions'' (normalizeEndpoint x)"
      unfolding normalizeEndpoint_def by blast
    from completionsURL_fixed [OF this] False show ?thesis
      by (simp add: normalizeEndpoint_def NewClient_def)
  qed
next
  show "completionsURL (c\<lparr>baseURL := completionsURL c\<rparr>) = completionsURL c"
  proof (cases "completionsURL c = []")
    case True
    then show ?thesis
      by (simp add: completionsURL_def)
  next
    case False
    with completionsURL_shape have "suffix ''/v1/chat/completions'' (completionsURL c)"
      by blast
    with False show ?thesis
      by (simp add: completionsURL_def [of "c\<lparr>baseURL := completionsURL c\<rparr>"] HasSuffix_def)
  qed
qed


section \<open>Sanitizing the LLM output\<close>





text \<open>
  C10. The sanitizer is idempotent: sanitizing a sanitized output gives it back unchanged,
  and a sanitized output never begins with a code-fence marker.
\<close>

theorem sanitizeLLMOutput_idempotent:
  "sanitizeLLMOutput (sanitizeLLMOutput s) = sanitizeLLMOutput s
   \<and> \<not> HasPrefix (sanitizeLLMOutput s) ''```''"
proof -
  have "\<not> HasPrefix (TrimSpace (sanitizeLLMOutput s)) ''```''"
    using sanitize_no_leading_fence [of s] by (simp add: sanitize_trimmed)
  from sanitize_plain [OF this] sanitize_no_leading_fence [of s] show ?thesis
    by (simp add: sanitize_trimmed)
qed

section \<open>Extraction\<close>

lemma truncateTo_nonneg:
  "0 \<le> limit \<Longrightarrow> truncateTo limit xs = Some (take (nat limit) xs)"
  by (auto simp: truncateTo_def)

lemma length_take_limit:
  "0 \<le> limit \<Longrightarrow> limit < int (length xs) \<Longrightarrow> int (length (take (nat limit) xs)) = limit"
  by simp

lemma foldl_headingStep:
  "foldl (headingStep level) hs sels =
     hs @ map (Heading level)
            (filter (\<lambda>text. text \<noteq> []) (map (\<lambda>sel. TrimSpace (nodeText sel)) sels))"
  by (induction sels arbitrary: hs) (simp_all add: headingStep_def Let_def)

lemma collectHeadings_blocks:
  "collectHeadings doc limit =
     truncateTo limit (headingsOfLevel doc 1 @ headingsOfLevel doc 2 @ headingsOfLevel doc 3)"
  by (simp add: collectHeadings_def foldl_headingStep headingsOfLevel_def)

lemma Level_headingsOfLevel: "h \<in> set (headingsOfLevel doc level) \<Longrightarrow> Level h = level"
  by (auto simp: headingsOfLevel_def)

text \<open>
  C5. For a limit that is not negative, the extracted headings are the level-1 block, then
  the level-2 block, then the level-3 block (each the non-empty trimmed heading texts of
  its level in document order), truncated to the limit. When there are more headings than
  the limit the result has exactly limit entries, and when the level-1 block alone
  reaches the limit the result is the first limit entries of the level-1 block, all of
  level 1. On the page \<open>threeH1\<close> (three h1, an h2 and an h3) with limit 2 the result is
  the first two h1 texts.
\<close>

theorem collectHeadings_levels:
  assumes "0 \<le> limit"
  shows "collectHeadings doc limit =
           Some (take (nat limit)
                   (headingsOfLevel doc 1 @ headingsOfLevel doc 2 @ headingsOfLevel doc 3))
         \<and> (limit < int (length (headingsOfLevel doc 1 @ headingsOfLevel doc 2
                                   @ headingsOfLevel doc 3))
              \<longrightarrow> (\<exists>hs. collectHeadings doc limit = Some hs \<and> int (length hs) = limit))
         \<and> (limit \<le> int (length (headingsOfLevel doc 1))
              \<longrightarrow> collectHeadings doc limit = Some (take (nat limit) (headingsOfLevel doc 1))
                \<and> (\<forall>h \<in> set (take (nat limit) (headingsOfLevel doc 1)). Level h = 1))
         \<and> collectHeadings threeH1 2 = Some [Heading 1 ''One'', Heading 1 ''Two'']"
proof (intro conjI impI ballI)
  show eq: "collectHeadings doc limit =
      Some (take (nat limit)
              (headingsOfLevel doc 1 @ headingsOfLevel doc 2 @ headingsOfLevel doc 3))"
    using assms by (simp add: collectHeadings_blocks truncateTo_nonneg)
  show "\<exists>hs. collectHeadings doc limit = Some hs \<and> int (length hs) = limit"
    if "limit < int (length (headingsOfLevel doc 1 @ headingsOfLevel doc 2
                               @ headingsOfLevel doc 3))"
    unfolding eq using length_take_limit [OF assms that] by blast
  show "collectHeadings doc limit = Some (take (nat limit) (headingsOfLevel doc 1))"
    if "limit \<le> int (length (headingsOfLevel doc 1))"
    using that assms unfolding eq by simp
  show "Level h = 1" if "h \<in> set (take (nat limit) (headingsOfLevel doc 1))" for h
    using that by (auto dest: in_set_takeD Level_headingsOfLevel)
  show "collectHeadings threeH1 2 = Some [Heading 1 ''One'', Heading 1 ''Two'']"
    by code_simp
qed

theorem collectHeadings_levels_witness:
  "collectHeadings threeH1 2 = Some (take 2 (headingsOfLevel threeH1 1))
   \<and> (\<exists>hs. collectHeadings threeH1 2 = Some hs \<and> int (length hs) = 2)
   \<and> headingsOfLevel threeH1 1 = [Heading 1 ''One'', Heading 1 ''Two'', Heading 1 ''Three'']
   \<and> headingsOfLevel threeH1 2 = [Heading 2 ''Sub'']"
proof -
  have h1: "headingsOfLevel threeH1 1 = [Heading 1 ''One'', Heading 1 ''Two'', Heading 1 ''Three'']"
    and h2: "headingsOfLevel threeH1 2 = [Heading 2 ''Sub'']"
    and h3: "headingsOfLevel threeH1 3 = [Heading 3 ''Deep'']"
    by code_simp+
  from collectHeadings_levels [of 2 threeH1] show ?thesis
    by (simp add: h1 h2 h3)
qed

lemma foldl_paragraphStep:
  "foldl paragraphStep ps sels =
     ps @ filter (\<lambda>text. 40 \<le> length text) (map (\<lambda>sel. TrimSpace (nodeText sel)) sels)"
  by (induction sels arbitrary: ps) (simp_all add: paragraphStep_def Let_def)

lemma runeWidth_pos: "0 < runeWidth s"
  by (induction s rule: runeWidth.induct) simp_all

lemma RuneCountInString_le: "RuneCountInString s \<le> length s"
proof (induction s rule: RuneCountInString.induct)
  case (1 s)
  show ?case
  proof (cases "s = []")
    case True
    then show ?thesis by (simp add: RuneCountInString.simps)
  next
    case False
    with 1 have "RuneCountInString (drop (runeWidth s) s) \<le> length s - runeWidth s"
      by simp
    moreover have "0 < length s" using False by simp
    ultimately have "Suc (RuneCountInString (drop (runeWidth s) s)) \<le> length s"
      using runeWidth_pos [of s] by linarith
    with False show ?thesis
      by (subst RuneCountInString.simps) simp
  qed
qed

text \<open>
  C7, as stated: every paragraph whose trimmed text has fewer than 40 characters is
  dropped. The scraper compares \<open>len(text)\<close>, a number of bytes: a paragraph of 20
  Cyrillic letters has 40 bytes and is kept.
\<close>

theorem collectParagraphs_characters_counterexample:
  "RuneCountInString (TrimSpace (nodeText cyrillicParagraph)) = 20
   \<and> collectParagraphs
        (DocumentNode [ElementNode ''html'' [] [ElementNode ''body'' [] [cyrillicParagraph]]]) 10
      = Some [TrimSpace (nodeText cyrillicParagraph)]"
  by code_simp

text \<open>
  C7, amended. For a limit that is not negative, the extracted paragraphs are the trimmed
  texts of the p elements whose length in bytes (of the UTF-8 text) is at least 40, in
  document order, truncated to the limit; when more than limit paragraphs qualify the
  result has exactly limit entries. A text of at least 40 characters has at least 40
  bytes, so it qualifies.
\<close>

theorem collectParagraphs_bytes:
  assumes "0 \<le> limit"
  shows "collectParagraphs doc limit =
           Some (take (nat limit) (filter (\<lambda>text. 40 \<le> length text) (paragraphTexts doc)))
         \<and> (limit < int (length (filter (\<lambda>text. 40 \<le> length text) (paragraphTexts doc)))
              \<longrightarrow> (\<exists>ps. collectParagraphs doc limit = Some ps \<and> int (length ps) = limit))
         \<and> (\<forall>text \<in> set (paragraphTexts doc).
               40 \<le> RuneCountInString text \<longrightarrow> 40 \<le> length text)"
proof (intro conjI impI ballI)
  show eq: "collectParagraphs doc limit =
      Some (take (nat limit) (filter (\<lambda>text. 40 \<le> length text) (paragraphTexts doc)))"
    using assms
    by (simp add: collectParagraphs_def foldl_paragraphStep paragraphTexts_def truncateTo_nonneg)
  show "\<exists>ps. collectParagraphs doc limit = Some ps \<and> int (length ps) = limit"
    if "limit < int (length (filter (\<lambda>text. 40 \<le> length text) (paragraphTexts doc)))"
    unfolding eq using length_take_limit [OF assms that] by blast
  show "40 \<le> length t" if "40 \<le> RuneCountInString t" for t
    using that RuneCountInString_le [of t] by linarith
qed

theorem collectParagraphs_bytes_witness:
  "collectParagraphs twoParagraphs 1 = Some [''The first paragraph that is long enough to keep.'']
   \<and> (\<exists>ps. collectParagraphs twoParagraphs 1 = Some ps \<and> int (length ps) = 1)
   \<and> 40 \<le> length ''The first paragraph that is long enough to keep.''"
proof -
  have texts: "paragraphTexts twoParagraphs =
      [''too short'', ''The first paragraph that is long enough to keep.'',
       ''The second paragraph that is long enough to keep.'']"
    by code_simp
  have runes: "40 \<le> RuneCountInString ''The first paragraph that is long enough to keep.''"
    by code_simp
  from collectParagraphs_bytes [of 1 twoParagraphs] runes show ?thesis
    by (simp add: texts)
qed

lemma linkStep_anchorLink:
  "linkStep lib base (seen, links) sel =
     (case anchorLink lib base sel of
        None \<Rightarrow> (seen, links)
      | Some l \<Rightarrow> if Href l \<in> seen then (seen, links)
                  else (insert (Href l) seen, links @ [l]))"
proof (cases "Attr sel ''href''")
  case None
  then show ?thesis by (simp add: linkStep_def anchorLink_def)
next
  case (Some href)
  then show ?thesis
    by (cases "TrimSpace href = []") (simp_all add: linkStep_def anchorLink_def resolveHref_def Let_def)
qed

lemma foldl_linkStep:
  "snd (foldl (linkStep lib base) (seen, links) sels) =
     links @ firstByHref (filter (\<lambda>l. Href l \<notin> seen) (List.map_filter (anchorLink lib base) sels))"
proof (induction sels arbitrary: seen links)
  case Nil
  then show ?case by (simp add: map_filter_simps)
next
  case (Cons sel sels)
  show ?case
  proof (cases "anchorLink lib base sel")
    case None
    with Cons show ?thesis
      by (simp add: linkStep_anchorLink map_filter_simps)
  next
    case (Some l)
    show ?thesis
    proof (cases "Href l \<in> seen")
      case True
      with Some Cons show ?thesis
        by (simp add: linkStep_anchorLink map_filter_simps)
    next
      case False
      have "(\<lambda>d. Href d \<noteq> Href l \<and> Href d \<notin> seen) = (\<lambda>d. Href d \<notin> seen \<and> Href d \<noteq> Href l)"
        by auto
      with False Some Cons show ?thesis
        by (simp add: linkStep_anchorLink map_filter_simps)
    qed
  qed
qed

lemma set_firstByHref: "set (firstByHref ls) \<subseteq> set ls"
  by (induction ls rule: firstByHref.induct) auto

lemma distinct_firstByHref: "distinct (map Href (firstByHref ls))"
proof (induction ls rule: firstByHref.induct)
  case 1
  then show ?case by simp
next
  case (2 l ls)
  have "Href l \<notin> Href ` set (firstByHref (filter (\<lambda>d. Href d \<noteq> Href l) ls))"
    using set_firstByHref [of "filter (\<lambda>d. Href d \<noteq> Href l) ls"] by auto
  with 2 show ?case by simp
qed

lemma find_filter_implied:
  "(\<And>x. P x \<Longrightarrow> Q x) \<Longrightarrow> find P (filter Q xs) = find P xs"
  by (induction xs) auto

lemma firstByHref_first:
  "l \<in> set (firstByHref ls) \<Longrightarrow> find (\<lambda>d. Href d = Href l) ls = Some l"
proof (induction ls rule: firstByHref.induct)
  case 1
  then show ?case by simp
next
  case (2 x ls)
  show ?case
  proof (cases "l = x")
    case True
    then show ?thesis by simp
  next
    case False
    with "2.prems" have mem: "l \<in> set (firstByHref (filter (\<lambda>d. Href d \<noteq> Href x) ls))"
      by simp
    with set_firstByHref have "Href l \<noteq> Href x"
      by fastforce
    moreover from "2.IH" [OF mem]
    have "find (\<lambda>d. Href d = Href l) (filter (\<lambda>d. Href d \<noteq> Href x) ls) = Some l" .
    moreover have "find (\<lambda>d. Href d = Href l) (filter (\<lambda>d. Href d \<noteq> Href x) ls)
        = find (\<lambda>d. Href d = Href l) ls"
      using \<open>Href l \<noteq> Href x\<close> by (intro find_filter_implied) auto
    ultimately show ?thesis by auto
  qed
qed

lemma hrefs_firstByHref: "Href ` set (firstByHref ls) = Href ` set ls"
proof (induction ls rule: firstByHref.induct)
  case 1
  then show ?case by simp
next
  case (2 l ls)
  then show ?case by auto
qed

lemma distinct_map_sort_key:
  "distinct (map f (sort_key g xs)) = distinct (map f xs)"
proof -
  have "card (set (map f (sort_key g xs))) = card (set (map f xs))"
    and "length (map f (sort_key g xs)) = length (map f xs)"
    by simp_all
  then show ?thesis
    by (metis card_distinct distinct_card)
qed

lemma distinct_map_take: "distinct (map f xs) \<Longrightarrow> distinct (map f (take n xs))"
  by (simp add: take_map [symmetric] distinct_take del: take_map)

lemma collectLinks_eq:
  "collectLinks lib base doc limit =
     map_option (sort_key Link.Text) (truncateTo limit (firstByHref (anchorLinks lib base doc)))"
  by (simp add: collectLinks_def foldl_linkStep anchorLinks_def)

text \<open>
  C6. For a limit that is not negative, the extracted links are the links of the anchors
  with a non-empty trimmed href (display text: the trimmed anchor text, or the resolved
  href when that is empty), with only the first link of every resolved href kept,
  truncated to the limit and only then sorted by display text with a stable sort: the
  hrefs of the result are distinct, every link of the result is the first link of the
  page with its href, the display texts are ascending, links with equal display text keep
  their order, and when more than limit hrefs are present the result has limit entries.
\<close>

theorem collectLinks_dedup_sorted:
  assumes "0 \<le> limit"
  shows "\<exists>links.
           collectLinks lib base doc limit = Some links
         \<and> links = sort_key Link.Text (take (nat limit) (firstByHref (anchorLinks lib base doc)))
         \<and> distinct (map Href links)
         \<and> (\<forall>l \<in> set links. find (\<lambda>d. Href d = Href l) (anchorLinks lib base doc) = Some l)
         \<and> sorted (map Link.Text links)
         \<and> (\<forall>k. filter (\<lambda>l. Link.Text l = k) links
                 = filter (\<lambda>l. Link.Text l = k)
                     (take (nat limit) (firstByHref (anchorLinks lib base doc))))
         \<and> (limit < int (length (firstByHref (anchorLinks lib base doc)))
              \<longrightarrow> int (length links) = limit)"
proof -
  define pre where "pre = firstByHref (anchorLinks lib base doc)"
  define links where "links = sort_key Link.Text (take (nat limit) pre)"
  have "collectLinks lib base doc limit = Some links"
    using assms by (simp add: collectLinks_eq truncateTo_nonneg links_def pre_def)
  moreover have "distinct (map Href links)"
    unfolding links_def pre_def
    by (simp only: distinct_map_sort_key distinct_map_take [OF distinct_firstByHref])
  moreover have "find (\<lambda>d. Href d = Href l) (anchorLinks lib base doc) = Some l"
    if "l \<in> set links" for l
  proof -
    from that have "l \<in> set pre"
      unfolding links_def by (auto dest: in_set_takeD)
    then show ?thesis
      unfolding pre_def by (rule firstByHref_first)
  qed
  moreover have "sorted (map Link.Text links)"
    unfolding links_def by simp
  moreover have "filter (\<lambda>l. Link.Text l = k) links
      = filter (\<lambda>l. Link.Text l = k) (take (nat limit) pre)" for k
    unfolding links_def by (rule sort_key_stable)
  moreover have "int (length links) = limit" if "limit < int (length pre)"
    using length_take_limit [OF assms that] by (simp add: links_def)
  ultimately show ?thesis
    unfolding links_def pre_def by blast
qed

theorem collectLinks_dedup_sorted_witness:
  "collectLinks netURL exampleBase sameHrefPage 2
     = Some [Link ''https://a.example/m'' ''https://a.example/m'',
             Link ''zebra'' ''https://a.example/y'']
   \<and> anchorLinks netURL exampleBase sameHrefPage
     = [Link ''zebra'' ''https://a.example/y'', Link ''apple'' ''https://a.example/y'',
        Link ''https://a.example/m'' ''https://a.example/m'',
        Link ''banana'' ''https://a.example/b'']"
proof -
  have a: "anchorLinks netURL exampleBase sameHrefPage
     = [Link ''zebra'' ''https://a.example/y'', Link ''apple'' ''https://a.example/y'',
        Link ''https://a.example/m'' ''https://a.example/m'',
        Link ''banana'' ''https://a.example/b'']"
    by code_simp
  have f: "sort_key Link.Text (take 2 (firstByHref
      [Link ''zebra'' ''https://a.example/y'', Link ''apple'' ''https://a.example/y'',
        Link ''https://a.example/m'' ''https://a.example/m'',
        Link ''banana'' ''https://a.example/b'']))
     = [Link ''https://a.example/m'' ''https://a.example/m'',
             Link ''zebra'' ''https://a.example/y'']"
    by code_simp
  from collectLinks_dedup_sorted [of 2 netURL exampleBase sameHrefPage]
  obtain links where "collectLinks netURL exampleBase sameHrefPage 2 = Some links"
    and "links = sort_key Link.Text (take (nat 2)
           (firstByHref (anchorLinks netURL exampleBase sameHrefPage)))"
    by auto
  with a f show ?thesis by simp
qed

section \<open>Navigation targets\<close>

lemma TrimSpace_examples:
  "TrimSpace ''javascript:alert(1)'' = ''javascript:alert(1)''"
  "TrimSpace ''docs/page'' = ''docs/page''"
  "TrimSpace ''https://a.example/x'' = ''https://a.example/x''"
  "TrimSpace ''/y'' = ''/y''"
  by code_simp+

text \<open>
  C8. \<open>resolveTarget\<close>, for every candidate and every state, with the URL library as a
  parameter. An empty candidate (after trimming) is rejected, and so is one that does not
  parse. An absolute candidate is accepted if and only if its scheme is http or https, and
  the result is the parsed URL printed. A relative candidate is rejected when the last
  source URL is empty or does not parse; otherwise it is resolved against the last source
  URL and accepted if and only if the resolved scheme is http or https, the result being
  the resolved URL printed. So \<open>javascript:alert(1)\<close> is rejected, a bare relative path
  is rejected when there is no last source URL, \<open>https://a.example/x\<close> is accepted
  whatever the state, and \<open>/y\<close> with the last source URL \<open>https://a.example/base\<close> is
  accepted as \<open>https://a.example/y\<close>.
\<close>

theorem resolveTarget_cases:
  "(TrimSpace target = [] \<longrightarrow> resolveTarget lib a target = None)
   \<and> (TrimSpace target \<noteq> [] \<longrightarrow> urlParse lib (TrimSpace target) = Inl err
        \<longrightarrow> resolveTarget lib a target = None)
   \<and> (TrimSpace target \<noteq> [] \<longrightarrow> urlParse lib (TrimSpace target) = Inr parsed
        \<longrightarrow> IsAbs parsed
        \<longrightarrow> resolveTarget lib a target =
              (if Scheme parsed = ''http'' \<or> Scheme parsed = ''https''
               then Some (urlString lib parsed) else None))
   \<and> (TrimSpace target \<noteq> [] \<longrightarrow> urlParse lib (TrimSpace target) = Inr parsed
        \<longrightarrow> \<not> IsAbs parsed \<longrightarrow> lastSourceURL a = []
        \<longrightarrow> resolveTarget lib a target = None)
   \<and> (TrimSpace target \<noteq> [] \<longrightarrow> urlParse lib (TrimSpace target) = Inr parsed
        \<longrightarrow> \<not> IsAbs parsed \<longrightarrow> lastSourceURL a \<noteq> []
        \<longrightarrow> urlParse lib (lastSourceURL a) = Inr base
        \<longrightarrow> resolveTarget lib a target =
              (if Scheme (urlResolveReference lib base parsed) = ''http''
                  \<or> Scheme (urlResolveReference lib base parsed) = ''https''
               then Some (urlString lib (urlResolveReference lib base parsed)) else None))
   \<and> (TrimSpace target \<noteq> [] \<longrightarrow> urlParse lib (TrimSpace target) = Inr parsed
        \<longrightarrow> \<not> IsAbs parsed \<longrightarrow> urlParse lib (lastSourceURL a) = Inl err
        \<longrightarrow> resolveTarget lib a target = None)
   \<and> (urlParse lib ''javascript:alert(1)'' = Inr pj \<longrightarrow> Scheme pj = ''javascript''
        \<longrightarrow> resolveTarget lib a ''javascript:alert(1)'' = None)
   \<and> (urlParse lib ''docs/page'' = Inr pd \<longrightarrow> Scheme pd = [] \<longrightarrow> lastSourceURL a = []
        \<longrightarrow> resolveTarget lib a ''docs/page'' = None)
   \<and> (urlParse lib ''https://a.example/x'' = Inr px \<longrightarrow> Scheme px = ''https''
        \<longrightarrow> urlString lib px = ''https://a.example/x''
        \<longrightarrow> resolveTarget lib a ''https://a.example/x'' = Some ''https://a.example/x'')
   \<and> (urlParse lib ''/y'' = Inr py \<longrightarrow> Scheme py = []
        \<longrightarrow> lastSourceURL a = ''https://a.example/base''
        \<longrightarrow> urlParse lib ''https://a.example/base'' = Inr pb
        \<longrightarrow> Scheme (urlResolveReference lib pb py) = ''https''
        \<longrightarrow> urlString lib (urlResolveReference lib pb py) = ''https://a.example/y''
        \<longrightarrow> resolveTarget lib a ''/y'' = Some ''https://a.example/y'')"
  by (simp add: resolveTarget_def Let_def IsAbs_def TrimSpace_examples)

theorem resolveTarget_cases_witness:
  "resolveTarget netURL (exampleApp []) ''   '' = None
   \<and> resolveTarget netURL (exampleApp []) '':bad'' = None
   \<and> resolveTarget netURL (exampleApp []) '' HTTP://a.example/x '' = Some ''http://a.example/x''
   \<and> resolveTarget netURL (exampleApp []) ''ftp://a.example/f'' = None
   \<and> resolveTarget netURL (exampleApp []) ''../up'' = None
   \<and> resolveTarget netURL ((exampleApp [])\<lparr>lastSource := ''https://a.example/dir/page''\<rparr>)
        ''../up?q=1'' = Some ''https://a.example/up?q=1''
   \<and> resolveTarget netURL ((exampleApp [])\<lparr>lastSource := '':bad''\<rparr>) ''../up'' = None
   \<and> resolveTarget netURL (exampleApp []) ''javascript:alert(1)'' = None
   \<and> resolveTarget netURL (exampleApp []) ''docs/page'' = None
   \<and> resolveTarget netURL (exampleApp []) ''https://a.example/x'' = Some ''https://a.example/x''
   \<and> resolveTarget netURL ((exampleApp [])\<lparr>lastSource := ''https://a.example/base''\<rparr>) ''/y''
       = Some ''https://a.example/y''"
proof -
  let ?a = "exampleApp []"
  have l: "lastSourceURL ?a = []" "lastSourceURL (?a\<lparr>lastSource := x\<rparr>) = x" for x
    by (simp_all add: lastSourceURL_def exampleApp_def)
  have e: "Scheme (emptyURL\<lparr>Scheme := s, Opaque := y\<rparr>) = s"
    "Scheme (emptyURL\<lparr>Path := z\<rparr>) = []"
    "Scheme (emptyURL\<lparr>Path := z, RawQuery := q\<rparr>) = []"
    "Scheme (emptyURL\<lparr>Scheme := s, Host := y, Path := z\<rparr>) = s"
    "Scheme (emptyURL\<lparr>Scheme := s, Host := y, Path := z, RawQuery := q\<rparr>) = s" for s y z q
    by (simp_all add: emptyURL_def)
  have t: "TrimSpace ''   '' = []" "TrimSpace '':bad'' = '':bad''"
    "TrimSpace '' HTTP://a.example/x '' = ''HTTP://a.example/x''"
    "TrimSpace ''ftp://a.example/f'' = ''ftp://a.example/f''"
    "TrimSpace ''../up'' = ''../up''" "TrimSpace ''../up?q=1'' = ''../up?q=1''"
    by code_simp+
  have p: "Parse '':bad'' = Inl ''parse \":bad\": missing protocol scheme''"
    "Parse ''HTTP://a.example/x''
       = Inr (emptyURL\<lparr>Scheme := ''http'', Host := ''a.example'', Path := ''/x''\<rparr>)"
    "Parse ''ftp://a.example/f''
       = Inr (emptyURL\<lparr>Scheme := ''ftp'', Host := ''a.example'', Path := ''/f''\<rparr>)"
    "Parse ''../up'' = Inr (emptyURL\<lparr>Path := ''../up''\<rparr>)"
    "Parse ''../up?q=1'' = Inr (emptyURL\<lparr>Path := ''../up'', RawQuery := ''q=1''\<rparr>)"
    "Parse ''https://a.example/dir/page''
       = Inr (emptyURL\<lparr>Scheme := ''https'', Host := ''a.example'', Path := ''/dir/page''\<rparr>)"
    "Parse ''javascript:alert(1)''
       = Inr (emptyURL\<lparr>Scheme := ''javascript'', Opaque := ''alert(1)''\<rparr>)"
    "Parse ''docs/page'' = Inr (emptyURL\<lparr>Path := ''docs/page''\<rparr>)"
    "Parse ''https://a.example/x''
       = Inr (emptyURL\<lparr>Scheme := ''https'', Host := ''a.example'', Path := ''/x''\<rparr>)"
    "Parse ''/y'' = Inr (emptyURL\<lparr>Path := ''/y''\<rparr>)"
    "Parse ''https://a.example/base'' = Inr exampleBase"
    by code_simp+
  have s: "String (emptyURL\<lparr>Scheme := ''http'', Host := ''a.example'', Path := ''/x''\<rparr>)
       = ''http://a.example/x''"
    "String (emptyURL\<lparr>Scheme := ''https'', Host := ''a.example'', Path := ''/x''\<rparr>)
       = ''https://a.example/x''"
    "Scheme (ResolveReference
        (emptyURL\<lparr>Scheme := ''https'', Host := ''a.example'', Path := ''/dir/page''\<rparr>)
        (emptyURL\<lparr>Path := ''../up'', RawQuery := ''q=1''\<rparr>)) = ''https''"
    "String (ResolveReference
        (emptyURL\<lparr>Scheme := ''https'', Host := ''a.example'', Path := ''/dir/page''\<rparr>)
        (emptyURL\<lparr>Path := ''../up'', RawQuery := ''q=1''\<rparr>)) = ''https://a.example/up?q=1''"
    "Scheme (ResolveReference exampleBase (emptyURL\<lparr>Path := ''/y''\<rparr>)) = ''https''"
    "String (ResolveReference exampleBase (emptyURL\<lparr>Path := ''/y''\<rparr>)) = ''https://a.example/y''"
    by code_simp+
  note n = netURL_def IsAbs_def l e t p s
  have "resolveTarget netURL ?a ''   '' = None"
    using resolveTarget_cases [where lib = netURL and a = ?a and target = "''   ''"]
    by (simp add: n)
  moreover have "resolveTarget netURL ?a '':bad'' = None"
    using resolveTarget_cases [where lib = netURL and a = ?a and target = "'':bad''"
        and err = "''parse \":bad\": missing protocol scheme''"]
    by (simp add: n)
  moreover have "resolveTarget netURL ?a '' HTTP://a.example/x '' = Some ''http://a.example/x''"
    using resolveTarget_cases [where lib = netURL and a = ?a and target = "'' HTTP://a.example/x ''"
        and parsed = "emptyURL\<lparr>Scheme := ''http'', Host := ''a.example'', Path := ''/x''\<rparr>"]
    by (simp add: n)
  moreover have "resolveTarget netURL ?a ''ftp://a.example/f'' = None"
    using resolveTarget_cases [where lib = netURL and a = ?a and target = "''ftp://a.example/f''"
        and parsed = "emptyURL\<lparr>Scheme := ''ftp'', Host := ''a.example'', Path := ''/f''\<rparr>"]
    by (simp add: n)
  moreover have "resolveTarget netURL ?a ''../up'' = None"
    using resolveTarget_cases [where lib = netURL and a = ?a and target = "''../up''"
        and parsed = "emptyURL\<lparr>Path := ''../up''\<rparr>"]
    by (simp add: n)
  moreover have "resolveTarget netURL (?a\<lparr>lastSource := ''https://a.example/dir/page''\<rparr>)
        ''../up?q=1'' = Some ''https://a.example/up?q=1''"
    using resolveTarget_cases [where lib = netURL
        and a = "?a\<lparr>lastSource := ''https://a.example/dir/page''\<rparr>"
        and target = "''../up?q=1''"
        and parsed = "emptyURL\<lparr>Path := ''../up'', RawQuery := ''q=1''\<rparr>"
        and base = "emptyURL\<lparr>Scheme := ''https'', Host := ''a.example'', Path := ''/dir/page''\<rparr>"]
    by (simp add: n)
  moreover have "resolveTarget netURL (?a\<lparr>lastSource := '':bad''\<rparr>) ''../up'' = None"
    using resolveTarget_cases [where lib = netURL and a = "?a\<lparr>lastSource := '':bad''\<rparr>"
        and target = "''../up''" and parsed = "emptyURL\<lparr>Path := ''../up''\<rparr>"
        and err = "''parse \":bad\": missing protocol scheme''"]
    by (simp add: n)
  moreover have "resolveTarget netURL ?a ''javascript:alert(1)'' = None"
    using resolveTarget_cases [where lib = netURL and a = ?a
        and pj = "emptyURL\<lparr>Scheme := ''javascript'', Opaque := ''alert(1)''\<rparr>"]
    by (simp add: n)
  moreover have "resolveTarget netURL ?a ''docs/page'' = None"
    using resolveTarget_cases [where lib = netURL and a = ?a
        and pd = "emptyURL\<lparr>Path := ''docs/page''\<rparr>"]
    by (simp add: n)
  moreover have "resolveTarget netURL ?a ''https://a.example/x'' = Some ''https://a.example/x''"
    using resolveTarget_cases [where lib = netURL and a = ?a
        and px = "emptyURL\<lparr>Scheme := ''https'', Host := ''a.example'', Path := ''/x''\<rparr>"]
    by (simp add: n)
  moreover have "resolveTarget netURL (?a\<lparr>lastSource := ''https://a.example/base''\<rparr>) ''/y''
       = Some ''https://a.example/y''"
    using resolveTarget_cases [where lib = netURL
        and a = "?a\<lparr>lastSource := ''https://a.example/base''\<rparr>"
        and py = "emptyURL\<lparr>Path := ''/y''\<rparr>" and pb = exampleBase]
    by (simp add: n)
  ultimately show ?thesis
    by (intro conjI)
qed

section \<open>Fetching and composing\<close>

lemma handleScrape_scraped:
  assumes "cfgScraper (cfg a) = Some s" and "Scrape env s target = Scraped r"
  shows "handleScrape env a target useLLM =
     (if useLLM \<and> Available (currentLLM a) then
        (case GeneratePage env (currentLLM a) r of
           Inr html \<Rightarrow> Some (setLastSource a (SourceURL r), renderHTML html)
         | Inl err \<Rightarrow>
             if IsRateLimited err then
               Some (setLastMode (setLastSource a (SourceURL r)) False,
                 [Log (''llm rate limited; falling back to scraped view: '' @ errorText err),
                  SetStatus ''LLM rate limited; showing scraped view'']
                 @ renderScraped env r)
             else Some (setLastSource a (SourceURL r),
                        renderError (''LLM fallback: '' @ errorText err)))
      else Some (setLastSource a (SourceURL r), renderScraped env r))"
proof -
  have c: "currentLLM (setLastSource a (SourceURL r)) = currentLLM a"
    by (simp add: currentLLM_def setLastSource_def)
  have n: "\<not> Available None"
    by (simp add: Available_def)
  show ?thesis
    unfolding handleScrape_def by (cases "currentLLM a") (simp_all add: assms Let_def c n)
qed

lemma Scrape_SourceURL: "Scrape env s target = Scraped r \<Longrightarrow> SourceURL r = target"
  unfolding Scrape_def
  by (auto simp: Let_def split: if_splits sum.splits httpOutcome.splits option.splits)



lemma GeneratePage_status:
  assumes "currentLLM a = Some c" and "Available (currentLLM a)"
    and "urlParse (urls env) (completionsURL c) = Inr u"
    and "\<And>header payload. llmPost env (completionsURL c) header payload = Response status body"
    and "400 \<le> status"
  shows "GeneratePage env (currentLLM a) r = Inl (HTTPError status (take (2 ^ 20) body))"
  using assms unfolding GeneratePage_def by (simp add: Let_def)

lemma stickyMode_simps:
  "stickyMode (setLastMode a False) = template"
  "stickyMode (setLastMode a True) = composed"
  "stickyMode (setLastSource a src) = stickyMode a"
  by (simp_all add: stickyMode_def setLastMode_def setLastSource_def)

lemma handleScrape_template_sticky:
  assumes "handleScrape env a target False = Some (a', evs)"
  shows "stickyMode a' = stickyMode a \<and> llmClient a' = llmClient a"
proof (cases "cfgScraper (cfg a)")
  case None
  with assms show ?thesis by (simp add: handleScrape_def)
next
  case (Some s)
  show ?thesis
  proof (cases "Scrape env s target")
    case (Scraped r)
    from assms show ?thesis
      unfolding handleScrape_scraped [OF Some Scraped]
      by (auto simp: stickyMode_def setLastSource_def)
  next
    case (ScrapeError e)
    with Some assms show ?thesis by (auto simp: handleScrape_def)
  next
    case ScrapePanic
    with Some assms show ?thesis by (simp add: handleScrape_def)
  qed
qed

lemma TrimSpace_Nil: "TrimSpace [] = []"
  by (simp add: TrimSpace_fixed runeAt_Nil)

lemma Scrape_exampleEnv:
  assumes "target \<noteq> []" and "Parse target = Inr p" and "IsAbs p"
  shows "Scrape (exampleEnv status) (New \<lparr>MaxItems = 0\<rparr>) target = Scraped (emptyResult target)"
  using assms
  by (simp add: Scrape_def exampleEnv_def netURL_def New_def collectHeadings_def
      collectParagraphs_def collectLinks_def Find_def truncateTo_def emptyResult_def
      TrimSpace_Nil)

lemma exampleApp_facts:
  "cfgScraper (cfg (exampleApp base)) = Some (New \<lparr>MaxItems = 0\<rparr>)"
  "currentLLM (exampleApp base) = Some (NewClient \<lparr>BaseURL = base, Model = ''llama3'', APIKey = []\<rparr>)"
  "stickyMode (exampleApp base) = composed"
  "lastSourceURL (exampleApp base) = []"
  by (simp_all add: exampleApp_def currentLLM_def stickyMode_def lastSourceURL_def)

lemma exampleClient:
  "NewClient \<lparr>BaseURL = ''http://localhost:11434/'', Model = ''llama3'', APIKey = []\<rparr>
     = \<lparr>baseURL = ''http://localhost:11434'', model = ''llama3'', apiKey = []\<rparr>"
  "completionsURL \<lparr>baseURL = ''http://localhost:11434'', model = ''llama3'', apiKey = []\<rparr>
     = ''http://localhost:11434/v1/chat/completions''"
  "Parse ''http://localhost:11434/v1/chat/completions''
     = Inr (emptyURL\<lparr>Scheme := ''http'', Host := ''localhost:11434'',
                       Path := ''/v1/chat/completions''\<rparr>)"
  "NewClient \<lparr>BaseURL = [], Model = ''llama3'', APIKey = []\<rparr>
     = \<lparr>baseURL = [], model = [], apiKey = []\<rparr>"
  by code_simp+

lemma example_targets:
  "Parse ''https://a.example/''
     = Inr (emptyURL\<lparr>Scheme := ''https'', Host := ''a.example'', Path := ''/''\<rparr>)"
  "Parse ''https://a.example/x?q= ''
     = Inr (emptyURL\<lparr>Scheme := ''https'', Host := ''a.example'', Path := ''/x'',
                       RawQuery := ''q= ''\<rparr>)"
  "TrimSpace ''https://a.example/'' = ''https://a.example/''"
  "TrimSpace ''https://a.example/x?q= '' = ''https://a.example/x?q=''"
  "itoa 429 = ''429''" "itoa 500 = ''500''"
  by code_simp+

lemma example_scraped:
  "Scrape (exampleEnv status) (New \<lparr>MaxItems = 0\<rparr>) ''https://a.example/''
     = Scraped (emptyResult ''https://a.example/'')"
  "Scrape (exampleEnv status) (New \<lparr>MaxItems = 0\<rparr>) ''https://a.example/x?q= ''
     = Scraped (emptyResult ''https://a.example/x?q= '')"
  "Scrape (exampleEnv status) (New \<lparr>MaxItems = 0\<rparr>) ''https://a.example/x''
     = Scraped (emptyResult ''https://a.example/x'')"
  by (rule Scrape_exampleEnv, simp, code_simp, simp add: IsAbs_def emptyURL_def)+

lemma example_available:
  "Available (currentLLM (exampleApp ''http://localhost:11434/''))"
  "\<not> llmAvailable (exampleApp [])"
  by (simp_all add: exampleApp_facts exampleClient Available_def llmAvailable_def)

lemma example_endpoint:
  "currentLLM (exampleApp ''http://localhost:11434/'')
     = Some \<lparr>baseURL = ''http://localhost:11434'', model = ''llama3'', apiKey = []\<rparr>"
  "urlParse (urls (exampleEnv status))
     (completionsURL \<lparr>baseURL = ''http://localhost:11434'', model = ''llama3'', apiKey = []\<rparr>)
     = Inr (emptyURL\<lparr>Scheme := ''http'', Host := ''localhost:11434'',
                       Path := ''/v1/chat/completions''\<rparr>)"
proof -
  show "currentLLM (exampleApp ''http://localhost:11434/'')
     = Some \<lparr>baseURL = ''http://localhost:11434'', model = ''llama3'', apiKey = []\<rparr>"
    by (simp add: exampleApp_facts exampleClient(1))
  have "Parse (completionsURL \<lparr>baseURL = ''http://localhost:11434'', model = ''llama3'',
          apiKey = []\<rparr>)
     = Inr (emptyURL\<lparr>Scheme := ''http'', Host := ''localhost:11434'',
                       Path := ''/v1/chat/completions''\<rparr>)"
    unfolding exampleClient(2) by (rule exampleClient(3))
  then show "urlParse (urls (exampleEnv status))
     (completionsURL \<lparr>baseURL = ''http://localhost:11434'', model = ''llama3'', apiKey = []\<rparr>)
     = Inr (emptyURL\<lparr>Scheme := ''http'', Host := ''localhost:11434'',
                       Path := ''/v1/chat/completions''\<rparr>)"
    by (simp add: exampleEnv_def netURL_def)
qed

lemma example_GeneratePage:
  assumes "400 \<le> status"
  shows "GeneratePage (exampleEnv status) (currentLLM (exampleApp ''http://localhost:11434/'')) r
     = Inl (HTTPError status [])"
proof -
  have "GeneratePage (exampleEnv status) (currentLLM (exampleApp ''http://localhost:11434/'')) r
     = Inl (HTTPError status (take (2 ^ 20) []))"
    by (rule GeneratePage_status [OF example_endpoint(1) example_available(1)
          example_endpoint(2) _ assms])
       (simp add: exampleEnv_def)
  then show ?thesis by simp
qed

lemma example_onNavigate:
  "onNavigate (exampleEnv 500) (exampleApp []) ''https://a.example/x''
     = Some (setLastMode (exampleApp []) False,
             [SetEntry ''https://a.example/x'', SetStatus ''Scraping...''],
             ''https://a.example/x'', False)"
proof -
  have "TrimSpace ''https://a.example/x'' = ''https://a.example/x''"
    and "Parse ''https://a.example/x''
      = Inr (emptyURL\<lparr>Scheme := ''https'', Host := ''a.example'', Path := ''/x''\<rparr>)"
    and "String (emptyURL\<lparr>Scheme := ''https'', Host := ''a.example'', Path := ''/x''\<rparr>)
      = ''https://a.example/x''"
    by code_simp+
  then have "resolveTarget netURL (exampleApp []) ''https://a.example/x''
      = Some ''https://a.example/x''"
    by (simp add: resolveTarget_def netURL_def IsAbs_def emptyURL_def)
  moreover have "navigationMode (exampleApp []) = False"
    using example_available(2)
    by (simp add: navigationMode_def llmAvailable_def currentLLM_def Let_def)
  ultimately show ?thesis
    by (simp add: onNavigate_def exampleEnv_def Let_def)
qed



text \<open>
  C9, as stated: after a fetch whose extraction succeeds, the last source URL equals the
  source URL of the document. \<open>setLastSource\<close> stores the source URL trimmed. The
  navigation target \<open>https://a.example/x?q= #\<close> resolves to a URL that ends in a space (the
  query is printed as it was read); the document fetched from it has this source URL, and
  the last source URL recorded is the URL without the space.
\<close>

theorem handleScrape_lastSource_counterexample:
  "resolveTarget netURL (exampleApp ''http://localhost:11434/'') ''https://a.example/x?q= #''
     = Some ''https://a.example/x?q= ''
   \<and> Scrape (exampleEnv 500) (New \<lparr>MaxItems = 0\<rparr>) ''https://a.example/x?q= ''
     = Scraped (emptyResult ''https://a.example/x?q= '')
   \<and> SourceURL (emptyResult ''https://a.example/x?q= '') = ''https://a.example/x?q= ''
   \<and> handleScrape (exampleEnv 500) (exampleApp ''http://localhost:11434/'')
        ''https://a.example/x?q= '' True
     = Some ((exampleApp ''http://localhost:11434/'')\<lparr>lastSource := ''https://a.example/x?q=''\<rparr>,
             renderError ''LLM fallback: llm returned status 500'')
   \<and> ''https://a.example/x?q='' \<noteq> ''https://a.example/x?q= ''"
proof -
  let ?a = "exampleApp ''http://localhost:11434/''" and ?t = "''https://a.example/x?q= ''"
  have "resolveTarget netURL ?a ''https://a.example/x?q= #'' = Some ?t"
  proof -
    have "TrimSpace ''https://a.example/x?q= #'' = ''https://a.example/x?q= #''"
      and "Parse ''https://a.example/x?q= #'' = Inr (emptyURL\<lparr>Scheme := ''https'',
            Host := ''a.example'', Path := ''/x'', RawQuery := ''q= ''\<rparr>)"
      and "String (emptyURL\<lparr>Scheme := ''https'', Host := ''a.example'', Path := ''/x'',
            RawQuery := ''q= ''\<rparr>) = ?t"
      by code_simp+
    then show ?thesis
      by (simp add: resolveTarget_def netURL_def IsAbs_def emptyURL_def)
  qed
  moreover have "handleScrape (exampleEnv 500) ?a ?t True
     = Some (?a\<lparr>lastSource := ''https://a.example/x?q=''\<rparr>,
             renderError ''LLM fallback: llm returned status 500'')"
    using example_GeneratePage [of 500 "emptyResult ?t"]
    by (simp add: handleScrape_scraped [OF exampleApp_facts(1) example_scraped(2)]
        example_available setLastSource_def emptyResult_def example_targets)
  ultimately show ?thesis
    by (simp add: example_scraped emptyResult_def)
qed

text \<open>
  C9, amended. For every fetch in which extraction succeeds, whatever the mode and whatever
  the composer answers (also when it fails), the last source URL afterwards is the source
  URL of the extracted document with the white space around it trimmed; the source URL is
  the target that was fetched. The two are equal whenever the source URL has no white
  space around it.
\<close>

theorem handleScrape_lastSource:
  assumes "cfgScraper (cfg a) = Some s" and "Scrape env s target = Scraped r"
  shows "\<exists>a' evs. handleScrape env a target useLLM = Some (a', evs)
           \<and> lastSource a' = TrimSpace (SourceURL r)
           \<and> SourceURL r = target
           \<and> (TrimSpace (SourceURL r) = SourceURL r \<longrightarrow> lastSource a' = SourceURL r)"
proof -
  have l: "lastSource (setLastSource a src) = TrimSpace src"
    "lastSource (setLastMode (setLastSource a src) m) = TrimSpace src" for src m
    by (simp_all add: setLastSource_def setLastMode_def)
  show ?thesis
    unfolding handleScrape_scraped [OF assms]
    by (auto simp: l Scrape_SourceURL [OF assms(2)] split: sum.splits)
qed

theorem handleScrape_lastSource_witness:
  "map_option (lastSource \<circ> fst)
     (handleScrape (exampleEnv 500) (exampleApp ''http://localhost:11434/'') ''https://a.example/'' True)
   = Some ''https://a.example/''"
proof -
  from handleScrape_lastSource [OF exampleApp_facts(1) example_scraped(1), of 500
      "''http://localhost:11434/''" True]
  obtain a' evs where "handleScrape (exampleEnv 500) (exampleApp ''http://localhost:11434/'')
        ''https://a.example/'' True = Some (a', evs)"
    and "lastSource a' = TrimSpace (SourceURL (emptyResult ''https://a.example/''))"
    by blast
  then show ?thesis
    by (simp add: emptyResult_def example_targets)
qed

text \<open>
  C2, as stated: after a navigation with the sticky mode composed and no composer
  available, the sticky mode still records composed. The navigation callback records the
  mode that \<open>navigationMode\<close> returned, which is the template mode: the sticky mode is
  template right after the callback and after the fetch it starts.
\<close>

theorem onNavigate_unavailable_counterexample:
  "stickyMode (exampleApp []) = composed
   \<and> \<not> llmAvailable (exampleApp [])
   \<and> map_option (stickyMode \<circ> fst)
        (onNavigate (exampleEnv 500) (exampleApp []) ''https://a.example/x'') = Some template
   \<and> map_option (stickyMode \<circ> fst)
        (navigate (exampleEnv 500) (exampleApp []) ''https://a.example/x'') = Some template"
proof -
  have c: "cfgScraper (cfg (setLastMode (exampleApp []) False)) = Some (New \<lparr>MaxItems = 0\<rparr>)"
    by (simp add: setLastMode_def exampleApp_def)
  have "handleScrape (exampleEnv 500) (setLastMode (exampleApp []) False) ''https://a.example/x'' False
      = Some (setLastSource (setLastMode (exampleApp []) False) ''https://a.example/x'',
              renderScraped (exampleEnv 500) (emptyResult ''https://a.example/x''))"
    by (simp add: handleScrape_scraped [OF c example_scraped(3)] emptyResult_def)
  then show ?thesis
    by (simp add: navigate_def example_onNavigate exampleApp_facts example_available
        stickyMode_simps)
qed

text \<open>
  C2, amended. For every navigation accepted while the sticky mode is composed and the
  composer is unavailable, the mode of that request is template, and the navigation records
  this effective mode: the state changes in the two mode flags only, the sticky mode is
  template afterwards, and it is still template after the fetch of that request.
\<close>

theorem onNavigate_unavailable:
  assumes "stickyMode a = composed" and "\<not> llmAvailable a"
    and "onNavigate env a target = Some (a', evs, resolved, useLLM)"
  shows "useLLM = False
       \<and> a' = a\<lparr>llmLastMode := False, llmLastSet := True\<rparr>
       \<and> stickyMode a' = template
       \<and> (\<forall>a'' evs'. handleScrape env a' resolved useLLM = Some (a'', evs')
             \<longrightarrow> stickyMode a'' = template)"
proof -
  from assms(2) have n: "navigationMode a = False"
    by (simp add: navigationMode_def llmAvailable_def currentLLM_def Let_def)
  from assms(3) have u: "useLLM = False" and a': "a' = setLastMode a False"
    by (auto simp: onNavigate_def n Let_def split: option.splits)
  have s: "stickyMode a' = template"
    unfolding a' by (rule stickyMode_simps)
  have "stickyMode a'' = template" if "handleScrape env a' resolved useLLM = Some (a'', evs')"
    for a'' evs'
    using handleScrape_template_sticky [of env a' resolved a'' evs'] that s u by simp
  with u a' s show ?thesis
    by (simp add: setLastMode_def)
qed

theorem onNavigate_unavailable_witness:
  "onNavigate (exampleEnv 500) (exampleApp []) ''https://a.example/x''
     = Some ((exampleApp [])\<lparr>llmLastMode := False, llmLastSet := True\<rparr>,
             [SetEntry ''https://a.example/x'', SetStatus ''Scraping...''],
             ''https://a.example/x'', False)
   \<and> stickyMode ((exampleApp [])\<lparr>llmLastMode := False, llmLastSet := True\<rparr>) = template
   \<and> map_option (stickyMode \<circ> fst)
        (handleScrape (exampleEnv 500) ((exampleApp [])\<lparr>llmLastMode := False, llmLastSet := True\<rparr>)
           ''https://a.example/x'' False) = Some template"
proof -
  let ?a' = "setLastMode (exampleApp []) False"
  let ?b = "(exampleApp [])\<lparr>llmLastMode := False, llmLastSet := True\<rparr>"
  have c: "cfgScraper (cfg ?a') = Some (New \<lparr>MaxItems = 0\<rparr>)"
    by (simp add: setLastMode_def exampleApp_def)
  have h: "handleScrape (exampleEnv 500) ?a' ''https://a.example/x'' False
      = Some (setLastSource ?a' ''https://a.example/x'',
              renderScraped (exampleEnv 500) (emptyResult ''https://a.example/x''))"
    by (simp add: handleScrape_scraped [OF c example_scraped(3)] emptyResult_def)
  note t = onNavigate_unavailable [OF exampleApp_facts(3) example_available(2) example_onNavigate]
  from t have e: "?a' = ?b"
    by (rule conjunct1 [OF conjunct2])
  from t have s: "stickyMode ?a' = template"
    by (rule conjunct1 [OF conjunct2 [OF conjunct2]])
  from t h have f: "stickyMode (setLastSource ?a' ''https://a.example/x'') = template"
    by blast
  have 1: "onNavigate (exampleEnv 500) (exampleApp []) ''https://a.example/x''
     = Some (?b, [SetEntry ''https://a.example/x'', SetStatus ''Scraping...''],
             ''https://a.example/x'', False)"
    using example_onNavigate unfolding e .
  have 2: "stickyMode ?b = template"
    using s unfolding e .
  have 3: "map_option (stickyMode \<circ> fst)
        (handleScrape (exampleEnv 500) ?b ''https://a.example/x'' False) = Some template"
    using h f unfolding e by simp
  from 1 2 3 show ?thesis by (intro conjI)
qed

end
